theory Spec2Isabelle
  imports Main "HOL-Library.Product_Lexorder"
begin

section \<open>Go strings\<close>

text \<open>
  A Go string is a sequence of bytes, here a \<^typ>\<open>string\<close>. The functions of package
  \<^verbatim>\<open>strings\<close> that \<^verbatim>\<open>cmd/main.go\<close> calls are written out below. Every separator the
  program passes to \<^verbatim>\<open>Split\<close>, \<^verbatim>\<open>SplitN\<close> and \<^verbatim>\<open>ReplaceAll\<close> is a non-empty
  constant; with an empty separator Go splits between code points, which these
  definitions do not do.
\<close>

definition HasPrefix :: "string \<Rightarrow> string \<Rightarrow> bool" where
  "HasPrefix s p = (take (length p) s = p)"

definition HasSuffix :: "string \<Rightarrow> string \<Rightarrow> bool" where
  "HasSuffix s p = (length p \<le> length s \<and> drop (length s - length p) s = p)"

definition TrimSuffix :: "string \<Rightarrow> string \<Rightarrow> string" where
  "TrimSuffix s p = (if HasSuffix s p then take (length s - length p) s else s)"

fun Contains :: "string \<Rightarrow> string \<Rightarrow> bool" where
  "Contains [] sub = (sub = [])"
| "Contains (c # cs) sub = (HasPrefix (c # cs) sub \<or> Contains cs sub)"

text \<open>
  \<^verbatim>\<open>splitFrom sep acc s\<close> cuts \<open>s\<close> at every occurrence of \<open>sep\<close>, found from the left
  and not overlapping; \<open>acc\<close> holds the field being read, reversed.
\<close>

fun splitFrom :: "string \<Rightarrow> string \<Rightarrow> string \<Rightarrow> string list" where
  "splitFrom sep acc [] = [rev acc]"
| "splitFrom sep acc (c # cs) =
     (if sep \<noteq> [] \<and> HasPrefix (c # cs) sep
      then rev acc # splitFrom sep [] (drop (length sep) (c # cs))
      else splitFrom sep (c # acc) cs)"

definition Split :: "string \<Rightarrow> string \<Rightarrow> string list" where
  "Split s sep = splitFrom sep [] s"

text \<open>
  \<^verbatim>\<open>strings.SplitN(s, sep, 2)\<close>: the text before the first separator and the whole
  rest, or \<open>s\<close> alone when there is no separator.
\<close>

fun cutFrom :: "string \<Rightarrow> string \<Rightarrow> string \<Rightarrow> string list" where
  "cutFrom sep acc [] = [rev acc]"
| "cutFrom sep acc (c # cs) =
     (if sep \<noteq> [] \<and> HasPrefix (c # cs) sep
      then [rev acc, drop (length sep) (c # cs)]
      else cutFrom sep (c # acc) cs)"

definition SplitN2 :: "string \<Rightarrow> string \<Rightarrow> string list" where
  "SplitN2 s sep = cutFrom sep [] s"

fun ReplaceAll :: "string \<Rightarrow> string \<Rightarrow> string \<Rightarrow> string" where
  "ReplaceAll [] old new = []"
| "ReplaceAll (c # cs) old new =
     (if old \<noteq> [] \<and> HasPrefix (c # cs) old
      then new @ ReplaceAll (drop (length old) (c # cs)) old new
      else c # ReplaceAll cs old new)"

text \<open>
  \<^verbatim>\<open>strings.ToLower\<close>. A string whose bytes are all below \<^verbatim>\<open>utf8.RuneSelf\<close>, that is
  \<open>0x80\<close>, is lowered byte by byte: \<open>A\<close> to \<open>Z\<close> become \<open>a\<close> to \<open>z\<close>. Any other string is
  handed to \<^verbatim>\<open>strings.Map(unicode.ToLower, s)\<close>, which lowers every letter by the Unicode
  tables and rewrites invalid UTF-8 to \<open>U+FFFD\<close>; the tables belong to the library, and
  \<open>unicodeLower\<close> stands for that call.
\<close>

definition lowerByte :: "char \<Rightarrow> char" where
  "lowerByte c =
     (if (65::nat) \<le> of_char c \<and> of_char c \<le> (90::nat)
      then char_of (of_char c + (32::nat)) else c)"

definition isASCII :: "string \<Rightarrow> bool" where
  "isASCII s = list_all (\<lambda>c. (of_char c :: nat) < 128) s"

definition ToLower :: "(string \<Rightarrow> string) \<Rightarrow> string \<Rightarrow> string" where
  "ToLower unicodeLower s = (if isASCII s then map lowerByte s else unicodeLower s)"

text \<open>
  \<^verbatim>\<open>strings.TrimSpace\<close> removes the leading and the trailing white space, as
  \<^verbatim>\<open>unicode.IsSpace\<close> defines it. \<open>spaceRunes\<close> lists the UTF-8 encodings of these code
  points: tab, line feed, vertical tab, form feed, carriage return, space, U+0085,
  U+00A0, U+1680, U+2000 to U+200A, U+2028, U+2029, U+202F, U+205F and U+3000.
\<close>

definition spaceRunes :: "string list" where
  "spaceRunes =
     [[CHR 0x09], [CHR 0x0A], [CHR 0x0B], [CHR 0x0C], [CHR 0x0D], [CHR 0x20],
      [CHR 0xC2, CHR 0x85], [CHR 0xC2, CHR 0xA0], [CHR 0xE1, CHR 0x9A, CHR 0x80],
      [CHR 0xE2, CHR 0x80, CHR 0x80], [CHR 0xE2, CHR 0x80, CHR 0x81],
      [CHR 0xE2, CHR 0x80, CHR 0x82], [CHR 0xE2, CHR 0x80, CHR 0x83],
      [CHR 0xE2, CHR 0x80, CHR 0x84], [CHR 0xE2, CHR 0x80, CHR 0x85],
      [CHR 0xE2, CHR 0x80, CHR 0x86], [CHR 0xE2, CHR 0x80, CHR 0x87],
      [CHR 0xE2, CHR 0x80, CHR 0x88], [CHR 0xE2, CHR 0x80, CHR 0x89],
      [CHR 0xE2, CHR 0x80, CHR 0x8A], [CHR 0xE2, CHR 0x80, CHR 0xA8],
      [CHR 0xE2, CHR 0x80, CHR 0xA9], [CHR 0xE2, CHR 0x80, CHR 0xAF],
      [CHR 0xE2, CHR 0x81, CHR 0x9F], [CHR 0xE3, CHR 0x80, CHR 0x80]]"

text \<open>The number of bytes of the first of \<open>ps\<close> that \<open>s\<close> starts with, 0 when none.\<close>

fun runeLen :: "string list \<Rightarrow> string \<Rightarrow> nat" where
  "runeLen [] s = 0"
| "runeLen (p # ps) s = (if HasPrefix s p then length p else runeLen ps s)"

fun trimRunes :: "string list \<Rightarrow> string \<Rightarrow> string" where
  "trimRunes ps [] = []"
| "trimRunes ps (c # cs) =
     (case runeLen ps (c # cs) of 0 \<Rightarrow> c # cs | Suc n \<Rightarrow> trimRunes ps (drop n cs))"

definition TrimSpace :: "string \<Rightarrow> string" where
  "TrimSpace s = rev (trimRunes (map rev spaceRunes) (rev (trimRunes spaceRunes s)))"

section \<open>Errors and \<^verbatim>\<open>strconv.Atoi\<close>\<close>

text \<open>
  A Go \<^verbatim>\<open>error\<close>: the two errors of \<^verbatim>\<open>strconv\<close>, an error of a client library or of
  the operating system (opaque to the program), and \<^verbatim>\<open>fmt.Errorf("...: %w", err)\<close>,
  which wraps an error under a message.
\<close>

datatype error = ErrSyntax | ErrRange | External string | Errorf string error

definition isDigit :: "char \<Rightarrow> bool" where
  "isDigit c = ((48::int) \<le> of_char c \<and> of_char c \<le> (57::int))"

text \<open>
  \<^verbatim>\<open>strconv.ParseUint(s, 10, 64)\<close> on a non-empty \<open>s\<close>: a byte that is no digit is a
  syntax error, a value beyond 64 bits a range error, whichever comes first. The
  \<^verbatim>\<open>uint64\<close> is an \<^typ>\<open>int\<close> here, with the two overflow tests of the source.
\<close>

fun parseUint :: "string \<Rightarrow> int \<Rightarrow> error + int" where
  "parseUint [] n = Inr n"
| "parseUint (c # cs) n =
     (if \<not> isDigit c then Inl ErrSyntax
      else if n \<ge> (2 ^ 64 - 1) div 10 + 1 then Inl ErrRange
      else let n1 = n * 10 + (of_char c - 48)
           in if n1 > 2 ^ 64 - 1 then Inl ErrRange else parseUint cs n1)"

text \<open>\<^verbatim>\<open>strconv.Atoi\<close> for the 64-bit \<^verbatim>\<open>int\<close>: an optional sign, then decimal digits.\<close>

definition Atoi :: "string \<Rightarrow> error + int" where
  "Atoi s =
     (let neg = (s \<noteq> [] \<and> hd s = CHR ''-'');
          ds = (if s \<noteq> [] \<and> (hd s = CHR ''-'' \<or> hd s = CHR ''+'') then tl s else s)
      in if ds = [] then Inl ErrSyntax
         else case parseUint ds 0 of
                Inl e \<Rightarrow> Inl e
              | Inr un \<Rightarrow>
                  if \<not> neg \<and> un \<ge> 2 ^ 63 then Inl ErrRange
                  else if neg \<and> un > 2 ^ 63 then Inl ErrRange
                  else Inr (if neg then - un else un))"

section \<open>The resource key\<close>

text \<open>\<^verbatim>\<open>makeResourceKey\<close>: the kind in lower case with a final \<open>s\<close>, after the group/version
  with every \<open>/\<close> replaced by \<open>-\<close>.\<close>

definition makeResourceKey :: "(string \<Rightarrow> string) \<Rightarrow> string \<Rightarrow> string \<Rightarrow> string" where
  "makeResourceKey unicodeLower apiVersion kind =
     (let resource = ToLower unicodeLower kind;
          resource = (if \<not> HasSuffix resource ''s'' then resource @ ''s'' else resource)
      in ReplaceAll apiVersion ''/'' ''-'' @ ''-'' @ resource)"

section \<open>The deprecation rules\<close>

text \<open>
  The structs \<^verbatim>\<open>DeprecationRule\<close> and \<^verbatim>\<open>ClusterVersion\<close>. Both have a field
  \<^verbatim>\<open>IsOpenShift\<close>; the rule's is \<open>IsOpenShiftRule\<close> here.
\<close>

record DeprecationRule =
  GroupVersion :: string
  Resource :: string
  DeprecatedFrom :: string
  ReplacementGV :: string
  ReplacementResource :: string
  IsOpenShiftRule :: bool

record ClusterVersion =
  Major :: int
  Minor :: int
  IsOpenShift :: bool
  OpenShiftMajor :: int
  OpenShiftMinor :: int

definition getDeprecationRules :: "DeprecationRule list" where
  "getDeprecationRules =
     [\<lparr>GroupVersion = ''v1'', Resource = ''componentstatuses'', DeprecatedFrom = ''1.19'',
       ReplacementGV = '''', ReplacementResource = '''', IsOpenShiftRule = False\<rparr>,
      \<lparr>GroupVersion = ''v1'', Resource = ''endpoints'', DeprecatedFrom = ''1.33'',
       ReplacementGV = ''discovery.k8s.io/v1'', ReplacementResource = ''endpointslices'',
       IsOpenShiftRule = False\<rparr>,
      \<lparr>GroupVersion = ''apps.openshift.io/v1'', Resource = ''deploymentconfigs'',
       DeprecatedFrom = ''4.14'', ReplacementGV = '''', ReplacementResource = '''',
       IsOpenShiftRule = True\<rparr>]"

text \<open>
  The body of the loop of \<^verbatim>\<open>isDeprecated\<close> for one rule, up to the flag
  \<^verbatim>\<open>isDeprecated\<close>: every \<^verbatim>\<open>continue\<close> of the source leaves the flag false.
\<close>

definition ruleFires :: "DeprecationRule \<Rightarrow> string \<Rightarrow> string \<Rightarrow> ClusterVersion \<Rightarrow> bool" where
  "ruleFires rule name groupVersion clusterVersion =
     (if GroupVersion rule \<noteq> groupVersion \<or> Resource rule \<noteq> name then False
      else if IsOpenShiftRule rule \<and> \<not> IsOpenShift clusterVersion then False
      else case Split (DeprecatedFrom rule) ''.'' of
             p0 # p1 # _ \<Rightarrow>
               (case (Atoi p0, Atoi p1) of
                  (Inr depMajor, Inr depMinor) \<Rightarrow>
                    if IsOpenShiftRule rule
                    then OpenShiftMajor clusterVersion > depMajor \<or>
                         (OpenShiftMajor clusterVersion = depMajor \<and>
                          OpenShiftMinor clusterVersion \<ge> depMinor)
                    else Major clusterVersion > depMajor \<or>
                         (Major clusterVersion = depMajor \<and> Minor clusterVersion \<ge> depMinor)
                | _ \<Rightarrow> False)
           | _ \<Rightarrow> False)"

text \<open>The loop of \<^verbatim>\<open>isDeprecated\<close> over a rule list: the first rule that fires returns.\<close>

fun isDeprecatedIn ::
  "DeprecationRule list \<Rightarrow> string \<Rightarrow> string \<Rightarrow> ClusterVersion \<Rightarrow> bool \<times> string \<times> string \<times> string"
where
  "isDeprecatedIn [] name groupVersion clusterVersion = (False, '''', '''', '''')"
| "isDeprecatedIn (rule # rules) name groupVersion clusterVersion =
     (if ruleFires rule name groupVersion clusterVersion
      then (True, ReplacementGV rule, ReplacementResource rule,
            if ReplacementGV rule \<noteq> '''' \<and> ReplacementResource rule \<noteq> ''''
            then ''Using '' @ ReplacementGV rule @ ''/'' @ ReplacementResource rule @
                 '' instead of deprecated '' @ groupVersion @ ''/'' @ name
            else ''Skipping deprecated '' @ groupVersion @ ''/'' @ name @
                 '' (no replacement available)'')
      else isDeprecatedIn rules name groupVersion clusterVersion)"

definition isDeprecated :: "string \<Rightarrow> string \<Rightarrow> ClusterVersion \<Rightarrow> bool \<times> string \<times> string \<times> string" where
  "isDeprecated name groupVersion clusterVersion =
     isDeprecatedIn getDeprecationRules name groupVersion clusterVersion"

definition shouldSkipResource :: "string \<Rightarrow> string \<Rightarrow> ClusterVersion \<Rightarrow> bool \<times> string" where
  "shouldSkipResource name groupVersion clusterVersion =
     (case isDeprecated name groupVersion clusterVersion of
        (deprecated, _, _, msg) \<Rightarrow> if deprecated then (True, msg) else (False, ''''))"

section \<open>Documents\<close>

text \<open>
  What \<^verbatim>\<open>sigs.k8s.io/yaml\<close> decodes into an \<^verbatim>\<open>interface{}\<close>: \<^verbatim>\<open>nil\<close>, a bool, a number
  (a \<^verbatim>\<open>float64\<close>, kept as its literal since the program never reads one), a string, a
  \<^verbatim>\<open>[]interface{}\<close> and a \<^verbatim>\<open>map[string]interface{}\<close>, the last as an association list
  read with \<^const>\<open>map_of\<close>.
\<close>

datatype yval =
    YNull
  | YBool bool
  | YNumber string
  | YString string
  | YList "yval list"
  | YMap "(string \<times> yval) list"

text \<open>The type assertion \<^verbatim>\<open>m[key].(string)\<close>, with the empty string when it fails.\<close>

definition stringField :: "(string \<times> yval) list \<Rightarrow> string \<Rightarrow> string \<times> bool" where
  "stringField m key = (case map_of m key of Some (YString s) \<Rightarrow> (s, True) | _ \<Rightarrow> ('''', False))"

text \<open>
  The inventory \<^verbatim>\<open>map[string][]interface{}\<close>. Reading a key that is absent gives the
  \<^verbatim>\<open>nil\<close> slice, to which \<^verbatim>\<open>append\<close> adds as to the empty one.
\<close>

type_synonym resourceMap = "string \<rightharpoonup> yval list"

definition itemsOf :: "resourceMap \<Rightarrow> string \<Rightarrow> yval list" where
  "itemsOf resourceMap key = (case resourceMap key of None \<Rightarrow> [] | Some items \<Rightarrow> items)"

definition appendItem :: "resourceMap \<Rightarrow> string \<Rightarrow> yval \<Rightarrow> resourceMap" where
  "appendItem resourceMap key item = resourceMap(key \<mapsto> itemsOf resourceMap key @ [item])"

section \<open>Ingesting a must-gather file\<close>

text \<open>The loop of \<^verbatim>\<open>processMustGatherFile\<close> over the entries of a \<^verbatim>\<open>List\<close> document.\<close>

fun processItems ::
  "(string \<Rightarrow> string) \<Rightarrow> yval list \<Rightarrow> resourceMap \<Rightarrow> resourceMap" where
  "processItems unicodeLower [] resourceMap = resourceMap"
| "processItems unicodeLower (item # items) resourceMap =
     (case item of
        YMap itemMap \<Rightarrow>
          (let itemApiVersion = fst (stringField itemMap ''apiVersion'');
               itemKind = fst (stringField itemMap ''kind'')
           in if itemApiVersion \<noteq> '''' \<and> itemKind \<noteq> ''''
              then processItems unicodeLower items
                     (appendItem resourceMap
                        (makeResourceKey unicodeLower itemApiVersion itemKind) (YMap itemMap))
              else processItems unicodeLower items resourceMap)
      | _ \<Rightarrow> processItems unicodeLower items resourceMap)"

text \<open>What \<^verbatim>\<open>processMustGatherFile\<close> does with one decoded document.\<close>

definition processResource ::
  "(string \<Rightarrow> string) \<Rightarrow> (string \<times> yval) list \<Rightarrow> resourceMap \<Rightarrow> resourceMap" where
  "processResource unicodeLower resource resourceMap =
     (case stringField resource ''apiVersion'' of (apiVersion, ok) \<Rightarrow>
        if \<not> ok \<or> apiVersion = '''' then resourceMap
        else case stringField resource ''kind'' of (kind, ok) \<Rightarrow>
          if \<not> ok \<or> kind = '''' then resourceMap
          else if kind = ''List''
          then (case map_of resource ''items'' of
                  Some (YList items) \<Rightarrow> processItems unicodeLower items resourceMap
                | _ \<Rightarrow> resourceMap)
          else appendItem resourceMap (makeResourceKey unicodeLower apiVersion kind) (YMap resource))"

text \<open>
  One round of the loop over the candidate documents. \<open>unmarshal\<close> stands for
  \<^verbatim>\<open>yaml.Unmarshal\<close> into a \<^verbatim>\<open>map[string]interface{}\<close>, a function of the library: it
  fails or gives the decoded mapping (the \<^verbatim>\<open>nil\<close> map as the empty list).
\<close>

definition processDoc ::
  "(string \<Rightarrow> string) \<Rightarrow> (string \<Rightarrow> error + (string \<times> yval) list) \<Rightarrow> string \<Rightarrow>
   resourceMap \<Rightarrow> resourceMap" where
  "processDoc unicodeLower unmarshal doc0 resourceMap =
     (let doc = TrimSpace doc0
      in if doc = '''' \<or> HasPrefix doc ''#'' then resourceMap
         else case unmarshal doc of
                Inl err \<Rightarrow> resourceMap
              | Inr resource \<Rightarrow> processResource unicodeLower resource resourceMap)"

fun processDocs ::
  "(string \<Rightarrow> string) \<Rightarrow> (string \<Rightarrow> error + (string \<times> yval) list) \<Rightarrow> string list \<Rightarrow>
   resourceMap \<Rightarrow> resourceMap" where
  "processDocs unicodeLower unmarshal [] resourceMap = resourceMap"
| "processDocs unicodeLower unmarshal (doc # docs) resourceMap =
     processDocs unicodeLower unmarshal docs (processDoc unicodeLower unmarshal doc resourceMap)"

text \<open>
  \<^verbatim>\<open>processMustGatherFile\<close>: \<open>readFile\<close> is the result of \<^verbatim>\<open>os.ReadFile(filePath)\<close>. The
  function returns its error and leaves the map as it is when the file cannot be read.
\<close>

definition processMustGatherFile ::
  "(string \<Rightarrow> string) \<Rightarrow> (string \<Rightarrow> error + (string \<times> yval) list) \<Rightarrow> error + string \<Rightarrow>
   resourceMap \<Rightarrow> error option \<times> resourceMap" where
  "processMustGatherFile unicodeLower unmarshal readFile resourceMap =
     (case readFile of
        Inl err \<Rightarrow> (Some (Errorf ''failed to read file'' err), resourceMap)
      | Inr data \<Rightarrow>
          (None, processDocs unicodeLower unmarshal (Split data ''\<newline>---'') resourceMap))"

section \<open>Rendering an inventory to a single file\<close>

text \<open>
  The loop of \<^verbatim>\<open>processMustGatherToSingleFile\<close> that builds the output. \<open>keys\<close> is the
  slice that the \<^verbatim>\<open>range\<close> over the map fills: Go visits the keys of a map in an
  order it does not specify, and the function does not sort the slice. \<open>marshal\<close>
  stands for \<^verbatim>\<open>yaml.Marshal\<close>, a function of the library. The marker line is written
  before the list is marshalled and stays when marshalling fails.
\<close>

definition listDocument :: "yval list \<Rightarrow> yval" where
  "listDocument items =
     YMap [(''apiVersion'', YString ''v1''), (''kind'', YString ''List''), (''items'', YList items)]"

fun buildSingleFile ::
  "(yval \<Rightarrow> error + string) \<Rightarrow> resourceMap \<Rightarrow> string list \<Rightarrow> string \<Rightarrow> string" where
  "buildSingleFile marshal resourceMap [] allResourcesYaml = allResourcesYaml"
| "buildSingleFile marshal resourceMap (key # keys) allResourcesYaml =
     (let items = itemsOf resourceMap key
      in if length items = 0 then buildSingleFile marshal resourceMap keys allResourcesYaml
         else let withMarker = allResourcesYaml @ ''--- # Resource: '' @ key @ ''\<newline>''
              in case marshal (listDocument items) of
                   Inl err \<Rightarrow> buildSingleFile marshal resourceMap keys withMarker
                 | Inr yamlData \<Rightarrow>
                     buildSingleFile marshal resourceMap keys (withMarker @ yamlData @ ''\<newline>''))"

text \<open>
  The walk of \<^verbatim>\<open>processMustGatherToSingleFile\<close>: what \<^verbatim>\<open>filepath.Walk\<close> hands to the
  callback for each entry it visits, with the result of reading the file.
\<close>

record walkEntry =
  path :: string
  walkErr :: bool
  isDir :: bool
  contents :: "error + string"

definition walkFile ::
  "(string \<Rightarrow> string) \<Rightarrow> (string \<Rightarrow> error + (string \<times> yval) list) \<Rightarrow> resourceMap \<Rightarrow>
   walkEntry \<Rightarrow> resourceMap" where
  "walkFile unicodeLower unmarshal resourceMap entry =
     (if walkErr entry then resourceMap
      else if isDir entry then resourceMap
      else if \<not> HasSuffix (path entry) ''.yaml'' \<and> \<not> HasSuffix (path entry) ''.yml''
      then resourceMap
      else snd (processMustGatherFile unicodeLower unmarshal (contents entry) resourceMap))"

text \<open>
  \<^verbatim>\<open>processMustGatherToSingleFile\<close>: the callback never returns an error, so neither
  does the walk. \<open>rangeKeys\<close> gives the order in which \<^verbatim>\<open>range\<close> visits the keys of
  the map, \<open>writeFile\<close> is \<^verbatim>\<open>os.WriteFile\<close> on the output file; the result is the
  returned error and the text handed to \<^verbatim>\<open>os.WriteFile\<close>.
\<close>

definition processMustGatherToSingleFile ::
  "(string \<Rightarrow> string) \<Rightarrow> (string \<Rightarrow> error + (string \<times> yval) list) \<Rightarrow> (yval \<Rightarrow> error + string) \<Rightarrow>
   (resourceMap \<Rightarrow> string list) \<Rightarrow> (string \<Rightarrow> error option) \<Rightarrow> walkEntry list \<Rightarrow>
   error option \<times> string" where
  "processMustGatherToSingleFile unicodeLower unmarshal marshal rangeKeys writeFile entries =
     (let resourceMap = foldl (walkFile unicodeLower unmarshal) Map.empty entries;
          allResourcesYaml = buildSingleFile marshal resourceMap (rangeKeys resourceMap) ''''
      in (writeFile allResourcesYaml, allResourcesYaml))"

section \<open>The diff\<close>

text \<open>\<^verbatim>\<open>parseResources\<close>: the names on the marker lines of a rendered file.\<close>

fun parseLines :: "string list \<Rightarrow> string list" where
  "parseLines [] = []"
| "parseLines (line # lines) =
     (if HasPrefix (TrimSpace line) ''--- # Resource:''
      then (case SplitN2 line '':'' of
              [p0, p1] \<Rightarrow> TrimSpace p1 # parseLines lines
            | _ \<Rightarrow> parseLines lines)
      else parseLines lines)"

definition parseResources :: "string \<Rightarrow> string list" where
  "parseResources content = parseLines (Split content ''\<newline>'')"

text \<open>
  The \<^verbatim>\<open>map[string]bool\<close> of the two functions below, filled with \<^verbatim>\<open>true\<close> for every
  member of a slice; a key that is absent reads as \<^verbatim>\<open>false\<close>.
\<close>

definition boolMapOf :: "string list \<Rightarrow> (string \<rightharpoonup> bool)" where
  "boolMapOf items = foldl (\<lambda>m item. m(item \<mapsto> True)) Map.empty items"

definition lookupBool :: "(string \<rightharpoonup> bool) \<Rightarrow> string \<Rightarrow> bool" where
  "lookupBool m key = (case m key of None \<Rightarrow> False | Some b \<Rightarrow> b)"

fun uniqueLoop :: "(string \<rightharpoonup> bool) \<Rightarrow> string list \<Rightarrow> string list \<Rightarrow> string list" where
  "uniqueLoop set2Map [] unique = unique"
| "uniqueLoop set2Map (item # items) unique =
     (if \<not> lookupBool set2Map item then uniqueLoop set2Map items (unique @ [item])
      else uniqueLoop set2Map items unique)"

definition findUniqueResources :: "string list \<Rightarrow> string list \<Rightarrow> string list" where
  "findUniqueResources set1 set2 = uniqueLoop (boolMapOf set2) set1 []"

fun commonLoop ::
  "(string \<rightharpoonup> bool) \<Rightarrow> string list \<Rightarrow> (string \<rightharpoonup> bool) \<Rightarrow> string list \<Rightarrow> string list" where
  "commonLoop set2Map [] seen common = common"
| "commonLoop set2Map (item # items) seen common =
     (if lookupBool set2Map item \<and> \<not> lookupBool seen item
      then commonLoop set2Map items (seen(item \<mapsto> True)) (common @ [item])
      else commonLoop set2Map items seen common)"

definition findCommonResources :: "string list \<Rightarrow> string list \<Rightarrow> string list" where
  "findCommonResources set1 set2 = commonLoop (boolMapOf set2) set1 Map.empty []"

section \<open>Live collection\<close>

text \<open>
  The two fields of \<^verbatim>\<open>metav1.APIResource\<close> that the program reads, and
  \<^verbatim>\<open>metav1.APIResourceList\<close> (its field \<^verbatim>\<open>GroupVersion\<close> is \<open>ListGroupVersion\<close> here).
\<close>

record APIResource =
  Name :: string
  Verbs :: "string list"

record APIResourceList =
  ListGroupVersion :: string
  APIResources :: "APIResource list"

text \<open>
  What the program asks of the cluster and of the operating system during a run, each
  with the answer it gets: the three calls of the discovery client,
  \<^verbatim>\<open>schema.ParseGroupVersion\<close>, the \<^verbatim>\<open>List\<close> call of the dynamic client on a
  group, version and resource, \<^verbatim>\<open>yaml.Marshal\<close>, \<^verbatim>\<open>os.WriteFile\<close> on a path and a
  text, \<^verbatim>\<open>filepath.Join\<close>, and the clock, formatted, when the header of the file of a
  group/version and resource is made.
\<close>

record world =
  ServerVersion :: "error + string \<times> string"
  ServerGroups :: "error + string list"
  ServerPreferredResources :: "error + APIResourceList list"
  ParseGroupVersion :: "string \<Rightarrow> error + string \<times> string"
  ListResource :: "string \<times> string \<times> string \<Rightarrow> error + yval"
  Marshal :: "yval \<Rightarrow> error + string"
  WriteFile :: "string \<Rightarrow> string \<Rightarrow> error option"
  Join :: "string \<Rightarrow> string \<Rightarrow> string"
  Now :: "string \<Rightarrow> string \<Rightarrow> string"

text \<open>\<^verbatim>\<open>detectClusterVersion\<close>; what it prints when \<^verbatim>\<open>verbose\<close> is set is left out.\<close>

definition detectClusterVersion :: "world \<Rightarrow> error + ClusterVersion" where
  "detectClusterVersion w =
     (case ServerVersion w of
        Inl err \<Rightarrow> Inl (Errorf ''failed to get server version'' err)
      | Inr (serverMajor, serverMinor) \<Rightarrow>
          (case Atoi (TrimSuffix serverMajor ''+'') of
             Inl err \<Rightarrow> Inl (Errorf ''failed to parse major version'' err)
           | Inr major \<Rightarrow>
               (case Atoi (TrimSuffix serverMinor ''+'') of
                  Inl err \<Rightarrow> Inl (Errorf ''failed to parse minor version'' err)
                | Inr minor \<Rightarrow>
                    (let isOpenShift =
                           (case ServerGroups w of
                              Inl err \<Rightarrow> False
                            | Inr groups \<Rightarrow> list_ex (\<lambda>name. Contains name ''openshift.io'') groups)
                     in Inr \<lparr>Major = major, Minor = minor, IsOpenShift = isOpenShift,
                             OpenShiftMajor = (if isOpenShift then 4 else 0),
                             OpenShiftMinor =
                               (if isOpenShift \<and> minor \<ge> 27 then 14 + (minor - 27) else 0)\<rparr>))))"

fun contains :: "string list \<Rightarrow> string \<Rightarrow> bool" where
  "contains [] item = False"
| "contains (s # slice) item = (if s = item then True else contains slice item)"

text \<open>The replacer of \<^verbatim>\<open>formatFilename\<close>: each of ten single bytes becomes \<open>-\<close>.\<close>

definition replaceUnsafe :: "string \<Rightarrow> string" where
  "replaceUnsafe s =
     map (\<lambda>c. if c \<in> set [CHR ''/'', CHR 0x5C, CHR '':'', CHR ''*'', CHR ''?'', CHR 0x22,
                            CHR ''<'', CHR ''>'', CHR ''|'', CHR '' '']
               then CHR ''-'' else c) s"

definition formatFilename :: "string \<Rightarrow> string \<Rightarrow> string" where
  "formatFilename resourceName groupVersion =
     (if groupVersion \<noteq> ''''
      then replaceUnsafe groupVersion @ ''-'' @ replaceUnsafe resourceName @ ''.yaml''
      else replaceUnsafe resourceName @ ''.yaml'')"

definition formatHeader :: "string \<Rightarrow> string \<Rightarrow> string \<Rightarrow> string" where
  "formatHeader now resourceName groupVersion =
     ''# Generated by k8s-resource-collector\<newline>'' @
     ''# Generated at: '' @ now @ ''\<newline>'' @
     ''# Resource: '' @ resourceName @ ''\<newline>'' @
     (if groupVersion \<noteq> '''' then ''# Group Version: '' @ groupVersion @ ''\<newline>'' else '''') @
     ''# ---\<newline>\<newline>''"

text \<open>
  \<^verbatim>\<open>collectResource\<close>: the files written so far are the state, a list of paths with
  their texts; an error leaves it as it is.
\<close>

definition collectResource ::
  "world \<Rightarrow> string \<Rightarrow> APIResource \<Rightarrow> string \<Rightarrow> (string \<times> string) list \<Rightarrow>
   error option \<times> (string \<times> string) list" where
  "collectResource w outputDir resource groupVersion files =
     (case ParseGroupVersion w groupVersion of
        Inl err \<Rightarrow> (Some (Errorf ''failed to parse group version'' err), files)
      | Inr (gvGroup, gvVersion) \<Rightarrow>
          (case ListResource w (gvGroup, gvVersion, Name resource) of
             Inl err \<Rightarrow>
               (Some (Errorf (''failed to get resource instances for '' @ Name resource) err), files)
           | Inr unstructuredList \<Rightarrow>
               (case Marshal w unstructuredList of
                  Inl err \<Rightarrow>
                    (Some (Errorf (''failed to marshal '' @ Name resource @ '' to YAML'') err), files)
                | Inr yamlData \<Rightarrow>
                    (let filename = formatFilename (Name resource) groupVersion;
                         filePath = Join w outputDir filename;
                         header = formatHeader (Now w groupVersion (Name resource))
                                    (Name resource) groupVersion;
                         finalYaml = header @ yamlData
                     in case WriteFile w filePath finalYaml of
                          Some err \<Rightarrow> (Some (Errorf (''failed to write file '' @ filePath) err), files)
                        | None \<Rightarrow> (None, files @ [(filePath, finalYaml)])))))"

text \<open>\<^verbatim>\<open>collectResourceToBuffer\<close>: the buffer is the state.\<close>

definition collectResourceToBuffer ::
  "world \<Rightarrow> APIResource \<Rightarrow> string \<Rightarrow> string \<Rightarrow> error option \<times> string" where
  "collectResourceToBuffer w resource groupVersion buffer =
     (case ParseGroupVersion w groupVersion of
        Inl err \<Rightarrow> (Some (Errorf ''failed to parse group version'' err), buffer)
      | Inr (gvGroup, gvVersion) \<Rightarrow>
          (case ListResource w (gvGroup, gvVersion, Name resource) of
             Inl err \<Rightarrow>
               (Some (Errorf (''failed to get resource instances for '' @ Name resource) err), buffer)
           | Inr unstructuredList \<Rightarrow>
               (case Marshal w unstructuredList of
                  Inl err \<Rightarrow>
                    (Some (Errorf (''failed to marshal '' @ Name resource @ '' to YAML'') err), buffer)
                | Inr yamlData \<Rightarrow>
                    (None, buffer @ ''--- # Resource: '' @ Name resource @ ''\<newline>'' @
                             yamlData @ ''\<newline>''))))"

text \<open>
  The counters of a run and what it has produced so far (the files written in
  directory mode, the buffer in single-file mode).
\<close>

record 'o collectState =
  produced :: 'o
  collectedCount :: nat
  errorCount :: nat
  skippedCount :: nat

definition initialState :: "'o \<Rightarrow> 'o collectState" where
  "initialState out = \<lparr>produced = out, collectedCount = 0, errorCount = 0, skippedCount = 0\<rparr>"

text \<open>
  The body of the inner loop, which \<^verbatim>\<open>collectResources\<close> and
  \<^verbatim>\<open>collectAllResourcesToSingleFile\<close> have in common but for the call that collects:
  \<open>collect\<close> is that call. \<open>skip\<close> is the skip decision; the program passes
  \<^const>\<open>shouldSkipResource\<close>, and the parameter serves to say that a run does not depend
  on the decision. \<open>clusterVersion\<close> is \<open>None\<close> for the \<^verbatim>\<open>nil\<close> pointer.
\<close>

definition collectStep ::
  "(string \<Rightarrow> string \<Rightarrow> ClusterVersion \<Rightarrow> bool \<times> string) \<Rightarrow>
   (APIResource \<Rightarrow> string \<Rightarrow> 'o \<Rightarrow> error option \<times> 'o) \<Rightarrow> ClusterVersion option \<Rightarrow>
   'o collectState \<Rightarrow> string \<times> APIResource \<Rightarrow> 'o collectState" where
  "collectStep skip collect clusterVersion st entry =
     (case entry of (groupVersion, resource) \<Rightarrow>
        if Contains (Name resource) ''/'' then st
        else if \<not> contains (Verbs resource) ''list'' \<or> \<not> contains (Verbs resource) ''get''
        then st
        else if (case clusterVersion of
                   None \<Rightarrow> False
                 | Some cv \<Rightarrow> fst (skip (Name resource) groupVersion cv))
        then st\<lparr>skippedCount := skippedCount st + 1\<rparr>
        else (case collect resource groupVersion (produced st) of
                (Some err, out) \<Rightarrow> st\<lparr>produced := out, errorCount := errorCount st + 1\<rparr>
              | (None, out) \<Rightarrow> st\<lparr>produced := out, collectedCount := collectedCount st + 1\<rparr>))"

text \<open>The resources in the order in which the two nested loops visit them.\<close>

definition resourcePairs :: "APIResourceList list \<Rightarrow> (string \<times> APIResource) list" where
  "resourcePairs resources =
     concat (map (\<lambda>resourceList. map (Pair (ListGroupVersion resourceList))
                                    (APIResources resourceList)) resources)"

definition clusterVersionOrNil :: "world \<Rightarrow> ClusterVersion option" where
  "clusterVersionOrNil w =
     (case detectClusterVersion w of Inl err \<Rightarrow> None | Inr clusterVersion \<Rightarrow> Some clusterVersion)"

text \<open>
  \<^verbatim>\<open>collectResources\<close> (directory mode) and \<^verbatim>\<open>collectAllResourcesToSingleFile\<close>: the
  returned error and the final state, whose counters the summary prints.
\<close>

definition collectResourcesWith ::
  "(string \<Rightarrow> string \<Rightarrow> ClusterVersion \<Rightarrow> bool \<times> string) \<Rightarrow> world \<Rightarrow> string \<Rightarrow>
   error option \<times> (string \<times> string) list collectState" where
  "collectResourcesWith skip w outputDir =
     (let clusterVersion = clusterVersionOrNil w
      in case ServerPreferredResources w of
           Inl err \<Rightarrow> (Some (Errorf ''failed to discover API resources'' err), initialState [])
         | Inr resources \<Rightarrow>
             (None, foldl (collectStep skip (collectResource w outputDir) clusterVersion)
                      (initialState []) (resourcePairs resources)))"

definition collectResources ::
  "world \<Rightarrow> string \<Rightarrow> error option \<times> (string \<times> string) list collectState" where
  "collectResources w outputDir = collectResourcesWith shouldSkipResource w outputDir"

definition collectAllResourcesToSingleFileWith ::
  "(string \<Rightarrow> string \<Rightarrow> ClusterVersion \<Rightarrow> bool \<times> string) \<Rightarrow> world \<Rightarrow> string \<Rightarrow>
   error option \<times> string collectState" where
  "collectAllResourcesToSingleFileWith skip w outputFile =
     (let clusterVersion = clusterVersionOrNil w
      in case ServerPreferredResources w of
           Inl err \<Rightarrow> (Some (Errorf ''failed to discover API resources'' err), initialState '''')
         | Inr resources \<Rightarrow>
             (let st = foldl (collectStep skip (collectResourceToBuffer w) clusterVersion)
                         (initialState '''') (resourcePairs resources)
              in case WriteFile w outputFile (produced st) of
                   Some err \<Rightarrow> (Some (Errorf (''failed to write file '' @ outputFile) err), st)
                 | None \<Rightarrow> (None, st)))"

definition collectAllResourcesToSingleFile ::
  "world \<Rightarrow> string \<Rightarrow> error option \<times> string collectState" where
  "collectAllResourcesToSingleFile w outputFile =
     collectAllResourcesToSingleFileWith shouldSkipResource w outputFile"

text \<open>
  The invariant of the loop of \<^verbatim>\<open>findCommonResources\<close>: \<^verbatim>\<open>seen\<close> holds the names
  that are in \<^verbatim>\<open>common\<close>.
\<close>

definition seenIs :: "(string \<rightharpoonup> bool) \<Rightarrow> string list \<Rightarrow> bool" where
  "seenIs seen common = (\<forall>x. lookupBool seen x = (x \<in> set common))"

section \<open>Auxiliary definitions\<close>

text \<open>The text that one key adds to the output of \<^const>\<open>buildSingleFile\<close>.\<close>

definition sectionOf :: "(yval \<Rightarrow> error + string) \<Rightarrow> resourceMap \<Rightarrow> string \<Rightarrow> string" where
  "sectionOf marshal resourceMap key =
     (if itemsOf resourceMap key = [] then ''''
      else ''--- # Resource: '' @ key @ ''\<newline>'' @
           (case marshal (listDocument (itemsOf resourceMap key)) of
              Inl err \<Rightarrow> ''''
            | Inr yamlData \<Rightarrow> yamlData @ ''\<newline>''))"

text \<open>
  \<^const>\<open>shouldSkipResource\<close> over a rule list, to speak of a run with no rules.
\<close>

definition shouldSkipResourceIn ::
  "DeprecationRule list \<Rightarrow> string \<Rightarrow> string \<Rightarrow> ClusterVersion \<Rightarrow> bool \<times> string" where
  "shouldSkipResourceIn rules name groupVersion clusterVersion =
     (case isDeprecatedIn rules name groupVersion clusterVersion of
        (deprecated, _, _, msg) \<Rightarrow> if deprecated then (True, msg) else (False, ''''))"

text \<open>
  Two tests of \<^const>\<open>collectStep\<close> on a resource: it is eligible (no subresource,
  and both verbs), and the skip decision skips it.
\<close>

definition eligible :: "string \<times> APIResource \<Rightarrow> bool" where
  "eligible entry =
     (\<not> Contains (Name (snd entry)) ''/'' \<and> contains (Verbs (snd entry)) ''list'' \<and>
      contains (Verbs (snd entry)) ''get'')"

definition skippedBy ::
  "(string \<Rightarrow> string \<Rightarrow> ClusterVersion \<Rightarrow> bool \<times> string) \<Rightarrow> ClusterVersion option \<Rightarrow>
   string \<times> APIResource \<Rightarrow> bool" where
  "skippedBy skip clusterVersion entry =
     (case clusterVersion of
        None \<Rightarrow> False
      | Some cv \<Rightarrow> fst (skip (Name (snd entry)) (fst entry) cv))"

text \<open>
  An entry of \<^verbatim>\<open>items\<close> that the loop keys: a mapping in which both \<^verbatim>\<open>apiVersion\<close> and
  \<^verbatim>\<open>kind\<close> are strings and not empty.
\<close>

definition keyed :: "yval \<Rightarrow> bool" where
  "keyed item =
     (case item of
        YMap itemMap \<Rightarrow>
          fst (stringField itemMap ''apiVersion'') \<noteq> '''' \<and> fst (stringField itemMap ''kind'') \<noteq> ''''
      | _ \<Rightarrow> False)"

text \<open>
  The loop calls the collecting function on an entry when it is eligible and not
  skipped. Whether that call fails does not depend on the buffer or on the files
  written before: \<open>fetchFails\<close> is the test for \<^const>\<open>collectResourceToBuffer\<close>,
  \<open>dirFails\<close> the one for \<^const>\<open>collectResource\<close>.
\<close>

definition attempted ::
  "(string \<Rightarrow> string \<Rightarrow> ClusterVersion \<Rightarrow> bool \<times> string) \<Rightarrow> ClusterVersion option \<Rightarrow>
   string \<times> APIResource \<Rightarrow> bool" where
  "attempted skip clusterVersion entry = (eligible entry \<and> \<not> skippedBy skip clusterVersion entry)"

definition fetchFails :: "world \<Rightarrow> string \<times> APIResource \<Rightarrow> bool" where
  "fetchFails w entry = (fst (collectResourceToBuffer w (snd entry) (fst entry) '''') \<noteq> None)"

definition dirFails :: "world \<Rightarrow> string \<Rightarrow> string \<times> APIResource \<Rightarrow> bool" where
  "dirFails w outputDir entry = (fst (collectResource w outputDir (snd entry) (fst entry) []) \<noteq> None)"

section \<open>Sample data\<close>

text \<open>
  Documents and texts for the concrete cases below: two pods, a service, a config map
  whose data holds a line that looks like a marker, a document without \<^verbatim>\<open>kind\<close>, and
  the YAML text of each as the library reads or writes it.
\<close>

definition samplePodFields :: "string \<Rightarrow> (string \<times> yval) list" where
  "samplePodFields name =
     [(''apiVersion'', YString ''v1''), (''kind'', YString ''Pod''),
      (''metadata'', YMap [(''name'', YString name)])]"

definition samplePod :: "string \<Rightarrow> yval" where
  "samplePod name = YMap (samplePodFields name)"

definition sampleServiceFields :: "(string \<times> yval) list" where
  "sampleServiceFields =
     [(''apiVersion'', YString ''v1''), (''kind'', YString ''Service''),
      (''metadata'', YMap [(''name'', YString ''web'')])]"

definition sampleService :: yval where
  "sampleService = YMap sampleServiceFields"

definition sampleConfigMap :: yval where
  "sampleConfigMap =
     YMap [(''apiVersion'', YString ''v1''), (''kind'', YString ''ConfigMap''),
           (''data'', YMap [(''notes'', YString ''see\<newline>--- # Resource: pods'')])]"

definition sampleNoKindFields :: "(string \<times> yval) list" where
  "sampleNoKindFields =
     [(''apiVersion'', YString ''v1''), (''metadata'', YMap [(''name'', YString ''orphan'')])]"

definition sampleListFields :: "(string \<times> yval) list" where
  "sampleListFields =
     [(''apiVersion'', YString ''v1''), (''kind'', YString ''List''),
      (''items'', YList [samplePod ''a'', samplePod ''b''])]"

definition sampleListText :: string where
  "sampleListText =
     ''apiVersion: v1\<newline>kind: List\<newline>items:\<newline>'' @
     ''- apiVersion: v1\<newline>  kind: Pod\<newline>  metadata:\<newline>    name: a\<newline>'' @
     ''- apiVersion: v1\<newline>  kind: Pod\<newline>  metadata:\<newline>    name: b''"

definition sampleServiceText :: string where
  "sampleServiceText = ''apiVersion: v1\<newline>kind: Service\<newline>metadata:\<newline>  name: web''"

definition sampleNoKindText :: string where
  "sampleNoKindText = ''apiVersion: v1\<newline>metadata:\<newline>  name: orphan''"

definition sampleCommentedText :: string where
  "sampleCommentedText =
     ''# exported pod\<newline>apiVersion: v1\<newline>kind: Pod\<newline>metadata:\<newline>  name: a''"

text \<open>A file with the list of the two pods, then the service.\<close>

definition sampleFile :: string where
  "sampleFile = sampleListText @ ''\<newline>---\<newline>'' @ sampleServiceText @ ''\<newline>''"

text \<open>The same file with the document without \<^verbatim>\<open>kind\<close> between the two.\<close>

definition sampleFileNoKind :: string where
  "sampleFileNoKind =
     sampleListText @ ''\<newline>---\<newline>'' @ sampleNoKindText @ ''\<newline>---\<newline>'' @
     sampleServiceText @ ''\<newline>''"

text \<open>
  What \<^verbatim>\<open>strings.Map(unicode.ToLower, s)\<close> gives on the strings of the samples, which
  are ASCII: on them the Unicode tables lower \<open>A\<close> to \<open>Z\<close> and nothing else.
\<close>

definition sampleUnicodeLower :: "string \<Rightarrow> string" where
  "sampleUnicodeLower s = map lowerByte s"

text \<open>What \<^verbatim>\<open>yaml.Unmarshal\<close> gives on the four texts.\<close>

definition sampleUnmarshal :: "string \<Rightarrow> error + (string \<times> yval) list" where
  "sampleUnmarshal doc =
     (if doc = sampleListText then Inr sampleListFields
      else if doc = sampleServiceText then Inr sampleServiceFields
      else if doc = sampleNoKindText then Inr sampleNoKindFields
      else if doc = sampleCommentedText then Inr (samplePodFields ''a'')
      else Inl (External ''text outside the samples''))"

definition samplePodsYaml :: string where
  "samplePodsYaml =
     ''apiVersion: v1\<newline>items:\<newline>'' @
     ''- apiVersion: v1\<newline>  kind: Pod\<newline>  metadata:\<newline>    name: a\<newline>'' @
     ''- apiVersion: v1\<newline>  kind: Pod\<newline>  metadata:\<newline>    name: b\<newline>'' @
     ''kind: List\<newline>''"

definition sampleServicesYaml :: string where
  "sampleServicesYaml =
     ''apiVersion: v1\<newline>items:\<newline>'' @
     ''- apiVersion: v1\<newline>  kind: Service\<newline>  metadata:\<newline>    name: web\<newline>'' @
     ''kind: List\<newline>''"

definition sampleConfigMapsYaml :: string where
  "sampleConfigMapsYaml =
     ''apiVersion: v1\<newline>items:\<newline>'' @
     ''- apiVersion: v1\<newline>  data:\<newline>    notes: |-\<newline>'' @
     ''      see\<newline>      --- # Resource: pods\<newline>'' @
     ''  kind: ConfigMap\<newline>'' @
     ''kind: List\<newline>''"

text \<open>What \<^verbatim>\<open>yaml.Marshal\<close> gives on the three lists.\<close>

definition sampleMarshal :: "yval \<Rightarrow> error + string" where
  "sampleMarshal v =
     (if v = listDocument [samplePod ''a'', samplePod ''b''] then Inr samplePodsYaml
      else if v = listDocument [sampleService] then Inr sampleServicesYaml
      else if v = listDocument [sampleConfigMap] then Inr sampleConfigMapsYaml
      else Inl (External ''document outside the samples''))"

definition sampleInventory :: resourceMap where
  "sampleInventory =
     [''v1-pods'' \<mapsto> [samplePod ''a'', samplePod ''b''], ''v1-services'' \<mapsto> [sampleService]]"

text \<open>
  A cluster that does not tell its version and advertises \<open>pods\<close>, \<open>endpoints\<close> and
  the subresource \<open>pods/status\<close> in \<open>v1\<close>; listing \<open>endpoints\<close> fails. The second
  world is the same with an output file that cannot be written.
\<close>

definition samplePods :: APIResource where
  "samplePods = \<lparr>Name = ''pods'', Verbs = [''get'', ''list'', ''watch'']\<rparr>"

definition samplePodsStatus :: APIResource where
  "samplePodsStatus = \<lparr>Name = ''pods/status'', Verbs = [''get'', ''patch'']\<rparr>"

definition sampleEndpoints :: APIResource where
  "sampleEndpoints = \<lparr>Name = ''endpoints'', Verbs = [''get'', ''list'']\<rparr>"

definition sampleResources :: "APIResourceList list" where
  "sampleResources =
     [\<lparr>ListGroupVersion = ''v1'',
       APIResources = [samplePods, samplePodsStatus, sampleEndpoints]\<rparr>]"

definition sampleWorld :: world where
  "sampleWorld =
     \<lparr>ServerVersion = Inl (External ''connection refused''),
      ServerGroups = Inl (External ''connection refused''),
      ServerPreferredResources = Inr sampleResources,
      ParseGroupVersion =
        (\<lambda>gv. if gv = ''v1'' then Inr ('''', ''v1'') else Inl (External ''unexpected GroupVersion'')),
      ListResource =
        (\<lambda>gvr. if gvr = ('''', ''v1'', ''pods'')
               then Inr (listDocument [samplePod ''a'', samplePod ''b''])
               else Inl (External ''context deadline exceeded'')),
      Marshal = sampleMarshal,
      WriteFile = (\<lambda>name text. None),
      Join = (\<lambda>dir name. dir @ ''/'' @ name),
      Now = (\<lambda>groupVersion name. ''2024-01-01T00:00:00Z'')\<rparr>"

definition sampleWorldFullDisk :: world where
  "sampleWorldFullDisk = sampleWorld\<lparr>WriteFile := (\<lambda>name text. Some (External ''no space left on device''))\<rparr>"

text \<open>A skip decision that skips every resource.\<close>

definition skipAlways :: "string \<Rightarrow> string \<Rightarrow> ClusterVersion \<Rightarrow> bool \<times> string" where
  "skipAlways name groupVersion clusterVersion = (True, ''skipped'')"

text \<open>
  A must-gather directory as \<^verbatim>\<open>filepath.Walk\<close> visits it: the directory, the sample
  file and a file that is no YAML file. The two functions after it are two orders in
  which a \<^verbatim>\<open>range\<close> can visit the keys of the sample inventory.
\<close>

definition sampleEntries :: "walkEntry list" where
  "sampleEntries =
     [\<lparr>path = ''must-gather'', walkErr = False, isDir = True,
       contents = Inl (External ''is a directory'')\<rparr>,
      \<lparr>path = ''must-gather/core.yaml'', walkErr = False, isDir = False,
       contents = Inr sampleFile\<rparr>,
      \<lparr>path = ''must-gather/version'', walkErr = False, isDir = False,
       contents = Inr ''4.14''\<rparr>]"

definition rangeServicesFirst :: "resourceMap \<Rightarrow> string list" where
  "rangeServicesFirst resourceMap = [''v1-services'', ''v1-pods'']"

definition rangePodsFirst :: "resourceMap \<Rightarrow> string list" where
  "rangePodsFirst resourceMap = [''v1-pods'', ''v1-services'']"

text \<open>
  The sample cluster with \<open>endpoints\<close>, whose listing fails, advertised before
  \<open>pods\<close>, and the resource lists without \<open>endpoints\<close>.
\<close>

definition sampleResourcesFailFirst :: "APIResourceList list" where
  "sampleResourcesFailFirst =
     [\<lparr>ListGroupVersion = ''v1'',
       APIResources = [sampleEndpoints, samplePodsStatus, samplePods]\<rparr>]"

definition sampleResourcesRest :: "APIResourceList list" where
  "sampleResourcesRest =
     [\<lparr>ListGroupVersion = ''v1'', APIResources = [samplePodsStatus, samplePods]\<rparr>]"

definition sampleWorldFailFirst :: world where
  "sampleWorldFailFirst = sampleWorld\<lparr>ServerPreferredResources := Inr sampleResourcesFailFirst\<rparr>"

section \<open>The resource key: properties\<close>

text \<open>
  Claim C9, as amended. \<^const>\<open>makeResourceKey\<close> is a total function of two strings, and
  every key it returns ends in \<open>s\<close>; for two empty inputs it returns the separator
  followed by the plural \<open>s\<close>, that is \<open>-s\<close>.
\<close>

theorem makeResourceKey_plural:
  "HasSuffix (makeResourceKey unicodeLower apiVersion kind) ''s'' \<and>
   makeResourceKey unicodeLower '''' '''' = ''-s''"
proof -
  have a: "HasSuffix (xs @ r) ''s''" if "HasSuffix r ''s''" for xs r
    using that by (auto simp: HasSuffix_def)
  have b: "HasSuffix (r @ ''s'') ''s''" for r
    by (simp add: HasSuffix_def)
  have "HasSuffix (makeResourceKey unicodeLower apiVersion kind) ''s''"
  proof (cases "HasSuffix (ToLower unicodeLower kind) ''s''")
    case True
    then have "HasSuffix (ReplaceAll apiVersion ''/'' ''-'' @ ''-'' @ ToLower unicodeLower kind) ''s''"
      by (intro a)
    with True show ?thesis by (simp add: makeResourceKey_def)
  next
    case False
    have "HasSuffix (ReplaceAll apiVersion ''/'' ''-'' @ ''-'' @ ToLower unicodeLower kind @ ''s'') ''s''"
      by (intro a b)
    with False show ?thesis by (simp add: makeResourceKey_def)
  qed
  moreover have "makeResourceKey unicodeLower '''' '''' = ''-s''"
    by (simp add: makeResourceKey_def ToLower_def isASCII_def HasSuffix_def)
  ultimately show ?thesis by simp
qed

text \<open>
  Claim C9 as stated fails: the key of two empty inputs is not the separator alone.
\<close>

theorem makeResourceKey_empty_counterexample:
  "makeResourceKey sampleUnicodeLower '''' '''' \<noteq> ''-''"
  by (simp add: makeResourceKey_def ToLower_def isASCII_def HasSuffix_def)

section \<open>The diff: properties\<close>

lemma lookupBool_fold:
  "lookupBool (foldl (\<lambda>m item. m(item \<mapsto> True)) m0 xs) x = (x \<in> set xs \<or> lookupBool m0 x)"
  by (induction xs arbitrary: m0) (auto simp: lookupBool_def)

lemma lookupBool_boolMapOf: "lookupBool (boolMapOf xs) x = (x \<in> set xs)"
  unfolding boolMapOf_def lookupBool_fold by (simp add: lookupBool_def)

lemma uniqueLoop_filter:
  "uniqueLoop (boolMapOf ys) xs acc = acc @ filter (\<lambda>x. x \<notin> set ys) xs"
  by (induction xs arbitrary: acc) (simp_all add: lookupBool_boolMapOf)

text \<open>\<^verbatim>\<open>findUniqueResources\<close> keeps every member of the first slice that is not in the
  second, as often as it occurs.\<close>

lemma findUniqueResources_filter:
  "findUniqueResources set1 set2 = filter (\<lambda>x. x \<notin> set set2) set1"
  by (simp add: findUniqueResources_def uniqueLoop_filter)

lemma findUniqueResources_set: "set (findUniqueResources set1 set2) = set set1 - set set2"
  by (auto simp: findUniqueResources_filter)

lemma seenIs_step: "seenIs seen acc \<Longrightarrow> seenIs (seen(x \<mapsto> True)) (acc @ [x])"
  by (auto simp: seenIs_def lookupBool_def)

lemma commonLoop_set:
  "seenIs seen acc \<Longrightarrow>
   set (commonLoop (boolMapOf ys) xs seen acc) = set acc \<union> (set xs \<inter> set ys)"
proof (induction xs arbitrary: seen acc)
  case Nil
  then show ?case by simp
next
  case (Cons x xs)
  show ?case
  proof (cases "x \<in> set ys \<and> x \<notin> set acc")
    case True
    then have "commonLoop (boolMapOf ys) (x # xs) seen acc =
        commonLoop (boolMapOf ys) xs (seen(x \<mapsto> True)) (acc @ [x])"
      using Cons.prems by (simp add: lookupBool_boolMapOf seenIs_def)
    moreover have "set (commonLoop (boolMapOf ys) xs (seen(x \<mapsto> True)) (acc @ [x])) =
        set (acc @ [x]) \<union> (set xs \<inter> set ys)"
      by (rule Cons.IH) (rule seenIs_step [OF Cons.prems])
    ultimately show ?thesis using True by auto
  next
    case False
    then have "commonLoop (boolMapOf ys) (x # xs) seen acc =
        commonLoop (boolMapOf ys) xs seen acc"
      using Cons.prems by (auto simp: lookupBool_boolMapOf seenIs_def)
    with Cons.IH [OF Cons.prems] False show ?thesis by auto
  qed
qed

lemma commonLoop_distinct:
  "seenIs seen acc \<Longrightarrow> distinct acc \<Longrightarrow> distinct (commonLoop m xs seen acc)"
proof (induction xs arbitrary: seen acc)
  case Nil
  then show ?case by simp
next
  case (Cons x xs)
  show ?case
  proof (cases "lookupBool m x \<and> \<not> lookupBool seen x")
    case True
    then have "commonLoop m (x # xs) seen acc = commonLoop m xs (seen(x \<mapsto> True)) (acc @ [x])"
      by simp
    moreover have "x \<notin> set acc"
      using True Cons.prems(1) by (simp add: seenIs_def)
    then have "distinct (acc @ [x])"
      using Cons.prems(2) by simp
    then have "distinct (commonLoop m xs (seen(x \<mapsto> True)) (acc @ [x]))"
      by (rule Cons.IH [OF seenIs_step [OF Cons.prems(1)]])
    ultimately show ?thesis by simp
  next
    case False
    then have "commonLoop m (x # xs) seen acc = commonLoop m xs seen acc"
      by auto
    with Cons.IH [OF Cons.prems] show ?thesis by simp
  qed
qed

text \<open>\<^verbatim>\<open>findCommonResources\<close> gives the intersection, each name once.\<close>

lemma findCommonResources_set: "set (findCommonResources set1 set2) = set set1 \<inter> set set2"
  by (simp add: findCommonResources_def commonLoop_set seenIs_def lookupBool_def)

lemma findCommonResources_distinct: "distinct (findCommonResources set1 set2)"
  by (simp add: findCommonResources_def commonLoop_distinct seenIs_def lookupBool_def)

text \<open>
  Claim C3: the diff computes \<^verbatim>\<open>onlyInFirst\<close> as first minus second,
  \<^verbatim>\<open>onlyInSecond\<close> as second minus first and \<^verbatim>\<open>common\<close> as the intersection, each of
  the three lists without repetitions. The three sets are as claimed
  (\<open>findUniqueResources_set\<close>, \<open>findCommonResources_set\<close>) and \<^verbatim>\<open>common\<close> has no
  repetition (\<open>findCommonResources_distinct\<close>), but \<^verbatim>\<open>findUniqueResources\<close> has no
  \<^verbatim>\<open>seen\<close> map: a name that occurs twice in the first sequence and not in the second
  is reported twice. A live single-file capture writes the marker from the resource
  name alone, so \<open>events\<close> of \<open>v1\<close> and of \<open>events.k8s.io/v1\<close> give the same marker
  twice.
\<close>

theorem findUniqueResources_repeats:
  "parseResources
     (''--- # Resource: events\<newline>apiVersion: v1\<newline>items: []\<newline>kind: EventList\<newline>\<newline>'' @
      ''--- # Resource: events\<newline>apiVersion: events.k8s.io/v1\<newline>items: []\<newline>kind: EventList\<newline>\<newline>'') =
     [''events'', ''events''] \<and>
   findUniqueResources [''events'', ''events''] [''pods''] = [''events'', ''events''] \<and>
   \<not> distinct (findUniqueResources [''events'', ''events''] [''pods''])"
  by (simp add: findUniqueResources_filter parseResources_def Split_def SplitN2_def HasPrefix_def
      TrimSpace_def spaceRunes_def)

section \<open>The deprecation rules: properties\<close>

lemma Atoi_1: "Atoi ''1'' = Inr 1"
  by (simp add: Atoi_def isDigit_def)

lemma Atoi_33: "Atoi ''33'' = Inr 33"
  by (simp add: Atoi_def isDigit_def)

lemma Split_1_33: "Split ''1.33'' ''.'' = [''1'', ''33'']"
  by (simp add: Split_def HasPrefix_def)

lemma ruleFires_lex:
  assumes "\<not> IsOpenShiftRule rule" "GroupVersion rule = groupVersion" "Resource rule = name"
    and "Split (DeprecatedFrom rule) ''.'' = p0 # p1 # rest"
    and "Atoi p0 = Inr depMajor" "Atoi p1 = Inr depMinor"
  shows "ruleFires rule name groupVersion cv = ((depMajor, depMinor) \<le> (Major cv, Minor cv))"
  using assms by (auto simp: ruleFires_def)

lemma endpoints_rule_lex:
  "fst (isDeprecated ''endpoints'' ''v1'' cv) = ((1, 33) \<le> (Major cv, Minor cv))"
  by (auto simp: isDeprecated_def getDeprecationRules_def ruleFires_def Split_1_33 Atoi_1 Atoi_33)

text \<open>
  Claim C4. With the built-in rules, \<open>endpoints\<close> of \<open>v1\<close> on a cluster of version 1.33
  is reported deprecated, with the replacement \<open>discovery.k8s.io/v1\<close>,
  \<open>endpointslices\<close> named in the message, and is skipped; on version 1.32 it is not.
  For every cluster version this rule fires exactly when (1, 33) is at most
  (major, minor) in the lexicographic order of pairs of integers. In general a rule
  that is not specific to OpenShift, matches the group/version and the resource and
  whose \<^verbatim>\<open>DeprecatedFrom\<close> parses to (depMajor, depMinor) fires exactly when
  (depMajor, depMinor) is at most (major, minor) in that order.
\<close>

theorem isDeprecated_endpoints:
  "isDeprecated ''endpoints'' ''v1'' (cv\<lparr>Major := 1, Minor := 33\<rparr>) =
     (True, ''discovery.k8s.io/v1'', ''endpointslices'',
      ''Using discovery.k8s.io/v1/endpointslices instead of deprecated v1/endpoints'') \<and>
   shouldSkipResource ''endpoints'' ''v1'' (cv\<lparr>Major := 1, Minor := 33\<rparr>) =
     (True, ''Using discovery.k8s.io/v1/endpointslices instead of deprecated v1/endpoints'') \<and>
   isDeprecated ''endpoints'' ''v1'' (cv\<lparr>Major := 1, Minor := 32\<rparr>) = (False, '''', '''', '''') \<and>
   shouldSkipResource ''endpoints'' ''v1'' (cv\<lparr>Major := 1, Minor := 32\<rparr>) = (False, '''') \<and>
   fst (isDeprecated ''endpoints'' ''v1'' cv) = ((1, 33) \<le> (Major cv, Minor cv)) \<and>
   (\<not> IsOpenShiftRule rule \<and> GroupVersion rule = groupVersion \<and> Resource rule = name \<and>
    Split (DeprecatedFrom rule) ''.'' = p0 # p1 # rest \<and>
    Atoi p0 = Inr depMajor \<and> Atoi p1 = Inr depMinor \<longrightarrow>
    ruleFires rule name groupVersion cv = ((depMajor, depMinor) \<le> (Major cv, Minor cv)))"
proof -
  have a: "isDeprecated ''endpoints'' ''v1'' (cv\<lparr>Major := 1, Minor := 33\<rparr>) =
     (True, ''discovery.k8s.io/v1'', ''endpointslices'',
      ''Using discovery.k8s.io/v1/endpointslices instead of deprecated v1/endpoints'')"
    by (simp add: isDeprecated_def getDeprecationRules_def ruleFires_def Split_1_33 Atoi_1 Atoi_33)
  have b: "isDeprecated ''endpoints'' ''v1'' (cv\<lparr>Major := 1, Minor := 32\<rparr>) = (False, '''', '''', '''')"
    by (simp add: isDeprecated_def getDeprecationRules_def ruleFires_def Split_1_33 Atoi_1 Atoi_33)
  have c: "shouldSkipResource ''endpoints'' ''v1'' (cv\<lparr>Major := 1, Minor := 33\<rparr>) =
     (True, ''Using discovery.k8s.io/v1/endpointslices instead of deprecated v1/endpoints'')"
    unfolding shouldSkipResource_def a by simp
  have d: "shouldSkipResource ''endpoints'' ''v1'' (cv\<lparr>Major := 1, Minor := 32\<rparr>) = (False, '''')"
    unfolding shouldSkipResource_def b by simp
  show ?thesis
    using a b c d endpoints_rule_lex [of cv]
      ruleFires_lex [of rule groupVersion name p0 p1 rest depMajor depMinor cv]
    by blast
qed

text \<open>The general part of C4 at the built-in rule for \<open>endpoints\<close>, on 1.34 and on 1.32.\<close>

theorem isDeprecated_endpoints_witness:
  "\<not> IsOpenShiftRule (getDeprecationRules ! 1) \<and> GroupVersion (getDeprecationRules ! 1) = ''v1'' \<and>
   Resource (getDeprecationRules ! 1) = ''endpoints'' \<and>
   Split (DeprecatedFrom (getDeprecationRules ! 1)) ''.'' = ''1'' # ''33'' # [] \<and>
   Atoi ''1'' = Inr 1 \<and> Atoi ''33'' = Inr 33 \<and>
   ruleFires (getDeprecationRules ! 1) ''endpoints'' ''v1''
     \<lparr>Major = 1, Minor = 34, IsOpenShift = False, OpenShiftMajor = 0, OpenShiftMinor = 0\<rparr> \<and>
   \<not> ruleFires (getDeprecationRules ! 1) ''endpoints'' ''v1''
     \<lparr>Major = 1, Minor = 32, IsOpenShift = False, OpenShiftMajor = 0, OpenShiftMinor = 0\<rparr>"
  using isDeprecated_endpoints [of
      "\<lparr>Major = 1, Minor = 34, IsOpenShift = False, OpenShiftMajor = 0, OpenShiftMinor = 0\<rparr>"
      "getDeprecationRules ! 1" "''v1''" "''endpoints''" "''1''" "''33''" "[]" 1 33]
    isDeprecated_endpoints [of
      "\<lparr>Major = 1, Minor = 32, IsOpenShift = False, OpenShiftMajor = 0, OpenShiftMinor = 0\<rparr>"
      "getDeprecationRules ! 1" "''v1''" "''endpoints''" "''1''" "''33''" "[]" 1 33]
  by (simp add: getDeprecationRules_def Split_1_33 Atoi_1 Atoi_33)

section \<open>Ingestion: properties\<close>

lemma processItems_append:
  "processItems unicodeLower (xs @ ys) rm = processItems unicodeLower ys (processItems unicodeLower xs rm)"
  by (induction xs arbitrary: rm) (auto simp: Let_def split: yval.splits)

lemma processDocs_append:
  "processDocs unicodeLower unmarshal (xs @ ys) rm = processDocs unicodeLower unmarshal ys (processDocs unicodeLower unmarshal xs rm)"
  by (induction xs arbitrary: rm) auto

lemma processItems_unkeyed: "\<not> keyed item \<Longrightarrow> processItems unicodeLower (item # items) rm = processItems unicodeLower items rm"
  by (cases item) (auto simp: keyed_def Let_def)

lemma processItems_drop:
  assumes "\<not> keyed item"
  shows "processItems unicodeLower (pre @ item # post) rm = processItems unicodeLower (pre @ post) rm"
  unfolding processItems_append by (rule processItems_unkeyed [OF assms])

lemma processResource_List:
  assumes "map_of resource ''apiVersion'' = Some (YString apiVersion)" "apiVersion \<noteq> ''''"
    and "map_of resource ''kind'' = Some (YString ''List'')"
    and "map_of resource ''items'' = Some (YList items)"
  shows "processResource unicodeLower resource rm = processItems unicodeLower items rm"
  using assms by (simp add: processResource_def stringField_def)

lemma sampleFile_docs:
  "Split sampleFile ''\<newline>---'' = [sampleListText, ''\<newline>'' @ sampleServiceText @ ''\<newline>'']"
  by (simp add: sampleFile_def sampleListText_def sampleServiceText_def Split_def HasPrefix_def)

lemma sampleFile_trim:
  "TrimSpace sampleListText = sampleListText"
  "TrimSpace (''\<newline>'' @ sampleServiceText @ ''\<newline>'') = sampleServiceText"
  by (simp_all add: sampleListText_def sampleServiceText_def TrimSpace_def HasPrefix_def spaceRunes_def)

lemma sample_kinds:
  "ToLower unicodeLower ''Pod'' = ''pod''"
  "ToLower unicodeLower ''Service'' = ''service''"
  by code_simp+

lemma sample_keys:
  "makeResourceKey unicodeLower ''v1'' ''Pod'' = ''v1-pods''"
  "makeResourceKey unicodeLower ''v1'' ''Service'' = ''v1-services''"
  by code_simp+

lemma sample_not_comment:
  "sampleListText \<noteq> ''''" "\<not> HasPrefix sampleListText ''#''"
  "sampleServiceText \<noteq> ''''" "\<not> HasPrefix sampleServiceText ''#''"
  by (simp_all add: sampleListText_def sampleServiceText_def HasPrefix_def)

lemma sampleList_processed:
  "processResource unicodeLower sampleListFields rm = processItems unicodeLower [samplePod ''a'', samplePod ''b''] rm"
  by (rule processResource_List [where apiVersion = "''v1''"]) (simp_all add: sampleListFields_def)

lemma samplePods_processed:
  "processItems unicodeLower [samplePod ''a'', samplePod ''b''] Map.empty =
     [''v1-pods'' \<mapsto> [samplePod ''a'', samplePod ''b'']]"
  by (simp add: samplePod_def samplePodFields_def stringField_def sample_keys appendItem_def
      itemsOf_def Let_def)

lemma sampleService_processed:
  "processResource unicodeLower sampleServiceFields [''v1-pods'' \<mapsto> [samplePod ''a'', samplePod ''b'']] =
     [''v1-pods'' \<mapsto> [samplePod ''a'', samplePod ''b''], ''v1-services'' \<mapsto> [sampleService]]"
  by (simp add: processResource_def sampleServiceFields_def sampleService_def stringField_def
      sample_keys appendItem_def itemsOf_def)

lemma missing_field_unkeyed:
  "map_of itemMap ''apiVersion'' = None \<or> map_of itemMap ''kind'' = None \<Longrightarrow> \<not> keyed (YMap itemMap)"
  by (auto simp: keyed_def stringField_def)

lemma sample_docs_processed:
  assumes "unmarshal sampleListText = Inr sampleListFields"
    "unmarshal sampleServiceText = Inr sampleServiceFields"
  shows "processDocs unicodeLower unmarshal [sampleListText, ''\<newline>'' @ sampleServiceText @ ''\<newline>''] Map.empty =
      [''v1-pods'' \<mapsto> [samplePod ''a'', samplePod ''b''], ''v1-services'' \<mapsto> [sampleService]]"
  using assms
  by (simp add: processDoc_def sampleFile_trim
      sample_not_comment sampleList_processed samplePods_processed sampleService_processed
      del: processItems.simps append.simps)

lemma pod_service_keys_differ:
  "makeResourceKey unicodeLower podVersion ''Pod'' \<noteq> makeResourceKey unicodeLower serviceVersion ''Service''"
proof
  assume "makeResourceKey unicodeLower podVersion ''Pod'' = makeResourceKey unicodeLower serviceVersion ''Service''"
  then have "ReplaceAll podVersion ''/'' ''-'' @ ''-pods'' =
      ReplaceAll serviceVersion ''/'' ''-'' @ ''-services''"
    by (simp add: makeResourceKey_def sample_kinds HasSuffix_def)
  then have "rev (ReplaceAll podVersion ''/'' ''-'' @ ''-pods'') =
      rev (ReplaceAll serviceVersion ''/'' ''-'' @ ''-services'')"
    by (rule arg_cong)
  then show False by simp
qed

lemma processDoc_decoded:
  assumes "TrimSpace doc \<noteq> ''''" "\<not> HasPrefix (TrimSpace doc) ''#''"
    and "unmarshal (TrimSpace doc) = Inr resource"
  shows "processDoc unicodeLower unmarshal doc rm = processResource unicodeLower resource rm"
  using assms by (simp add: processDoc_def Let_def)

lemma processResource_keyed:
  assumes "map_of resource ''apiVersion'' = Some (YString apiVersion)" "apiVersion \<noteq> ''''"
    and "map_of resource ''kind'' = Some (YString kind)" "kind \<noteq> ''''" "kind \<noteq> ''List''"
  shows "processResource unicodeLower resource rm =
         appendItem rm (makeResourceKey unicodeLower apiVersion kind) (YMap resource)"
  using assms by (simp add: processResource_def stringField_def)

lemma processItems_keyed:
  assumes "map_of itemMap ''apiVersion'' = Some (YString apiVersion)" "apiVersion \<noteq> ''''"
    and "map_of itemMap ''kind'' = Some (YString kind)" "kind \<noteq> ''''"
  shows "processItems unicodeLower (YMap itemMap # items) rm =
         processItems unicodeLower items (appendItem rm (makeResourceKey unicodeLower apiVersion kind) (YMap itemMap))"
  using assms by (simp add: stringField_def Let_def)

text \<open>
  Claim C5. A file of two documents, a \<^verbatim>\<open>List\<close> whose items are two pods, each with
  \<^verbatim>\<open>apiVersion\<close> and \<^verbatim>\<open>kind\<close>, and a service, as \<^verbatim>\<open>yaml.Unmarshal\<close> decodes them,
  gives an inventory with exactly two keys: the pod key with the two pods and the
  service key with the service. The \<^verbatim>\<open>List\<close> document is not keyed itself:
  processing it is processing its items. An entry of the items that lacks
  \<^verbatim>\<open>apiVersion\<close> or \<^verbatim>\<open>kind\<close> is dropped alone: the map is the one that the other
  entries give.
\<close>

theorem processMustGatherFile_list_and_service:
  assumes "Split data ''\<newline>---'' = [listText, serviceText]"
    and "TrimSpace listText \<noteq> ''''" "\<not> HasPrefix (TrimSpace listText) ''#''"
    and "unmarshal (TrimSpace listText) = Inr listFields"
    and "TrimSpace serviceText \<noteq> ''''" "\<not> HasPrefix (TrimSpace serviceText) ''#''"
    and "unmarshal (TrimSpace serviceText) = Inr serviceFields"
    and "map_of listFields ''apiVersion'' = Some (YString listVersion)" "listVersion \<noteq> ''''"
    and "map_of listFields ''kind'' = Some (YString ''List'')"
    and "map_of listFields ''items'' = Some (YList [YMap pod1, YMap pod2])"
    and "map_of pod1 ''apiVersion'' = Some (YString podVersion)"
    and "map_of pod1 ''kind'' = Some (YString ''Pod'')"
    and "map_of pod2 ''apiVersion'' = Some (YString podVersion)"
    and "map_of pod2 ''kind'' = Some (YString ''Pod'')"
    and "podVersion \<noteq> ''''"
    and "map_of serviceFields ''apiVersion'' = Some (YString serviceVersion)"
    and "serviceVersion \<noteq> ''''"
    and "map_of serviceFields ''kind'' = Some (YString ''Service'')"
  shows "processMustGatherFile unicodeLower unmarshal (Inr data) Map.empty =
           (None, [makeResourceKey unicodeLower podVersion ''Pod'' \<mapsto> [YMap pod1, YMap pod2],
                   makeResourceKey unicodeLower serviceVersion ''Service'' \<mapsto> [YMap serviceFields]]) \<and>
         makeResourceKey unicodeLower podVersion ''Pod'' \<noteq> makeResourceKey unicodeLower serviceVersion ''Service'' \<and>
         dom (snd (processMustGatherFile unicodeLower unmarshal (Inr data) Map.empty)) =
           {makeResourceKey unicodeLower podVersion ''Pod'', makeResourceKey unicodeLower serviceVersion ''Service''} \<and>
         processResource unicodeLower listFields resourceMap =
           processItems unicodeLower [YMap pod1, YMap pod2] resourceMap \<and>
         (map_of itemMap ''apiVersion'' = None \<or> map_of itemMap ''kind'' = None \<longrightarrow>
          processItems unicodeLower (pre @ YMap itemMap # post) resourceMap =
            processItems unicodeLower (pre @ post) resourceMap)"
proof -
  let ?pods = "makeResourceKey unicodeLower podVersion ''Pod''"
  let ?services = "makeResourceKey unicodeLower serviceVersion ''Service''"
  have ne: "''Pod'' \<noteq> ''''" "''Service'' \<noteq> ''''" "''Service'' \<noteq> ''List''"
    by simp_all
  have l: "processResource unicodeLower listFields rm = processItems unicodeLower [YMap pod1, YMap pod2] rm" for rm
    by (rule processResource_List [OF assms(8,9,10,11)])
  have p: "processItems unicodeLower [YMap pod1, YMap pod2] Map.empty = [?pods \<mapsto> [YMap pod1, YMap pod2]]"
    unfolding processItems_keyed [OF assms(12) assms(16) assms(13) ne(1)]
      processItems_keyed [OF assms(14) assms(16) assms(15) ne(1)]
    by (simp add: appendItem_def itemsOf_def)
  have s: "processResource unicodeLower serviceFields [?pods \<mapsto> [YMap pod1, YMap pod2]] =
      [?pods \<mapsto> [YMap pod1, YMap pod2], ?services \<mapsto> [YMap serviceFields]]"
    unfolding processResource_keyed [OF assms(17,18,19) ne(2,3)]
    using pod_service_keys_differ [of unicodeLower podVersion serviceVersion]
    by (simp add: appendItem_def itemsOf_def)
  have "processDocs unicodeLower unmarshal [listText, serviceText] Map.empty =
      [?pods \<mapsto> [YMap pod1, YMap pod2], ?services \<mapsto> [YMap serviceFields]]"
    by (simp only: processDocs.simps
        processDoc_decoded [where unmarshal = unmarshal, OF assms(2,3,4)]
        processDoc_decoded [where unmarshal = unmarshal, OF assms(5,6,7)] l p s)
  then have f: "processMustGatherFile unicodeLower unmarshal (Inr data) Map.empty =
      (None, [?pods \<mapsto> [YMap pod1, YMap pod2], ?services \<mapsto> [YMap serviceFields]])"
    by (simp add: processMustGatherFile_def assms(1) del: processDocs.simps)
  have d: "dom (snd (processMustGatherFile unicodeLower unmarshal (Inr data) Map.empty)) = {?pods, ?services}"
    unfolding f by auto
  show ?thesis
    using f d l [of resourceMap] pod_service_keys_differ [of unicodeLower podVersion serviceVersion]
      processItems_drop [OF missing_field_unkeyed, of itemMap unicodeLower pre post resourceMap]
    by blast
qed

lemma sampleUnmarshal_values:
  "sampleUnmarshal sampleListText = Inr sampleListFields"
  "sampleUnmarshal sampleServiceText = Inr sampleServiceFields"
  "sampleUnmarshal sampleNoKindText = Inr sampleNoKindFields"
  "sampleUnmarshal sampleCommentedText = Inr (samplePodFields ''a'')"
  by (simp_all add: sampleUnmarshal_def sampleListText_def sampleServiceText_def
      sampleNoKindText_def sampleCommentedText_def)

text \<open>C5 on the sample file, and on the two pods with the document without \<^verbatim>\<open>kind\<close>
  between them.\<close>

theorem processMustGatherFile_list_and_service_witness:
  "Split sampleFile ''\<newline>---'' = [sampleListText, ''\<newline>'' @ sampleServiceText @ ''\<newline>''] \<and>
   sampleUnmarshal (TrimSpace sampleListText) = Inr sampleListFields \<and>
   sampleUnmarshal (TrimSpace (''\<newline>'' @ sampleServiceText @ ''\<newline>'')) = Inr sampleServiceFields \<and>
   map_of sampleListFields ''kind'' = Some (YString ''List'') \<and>
   map_of sampleListFields ''items'' = Some (YList [samplePod ''a'', samplePod ''b'']) \<and>
   processMustGatherFile sampleUnicodeLower sampleUnmarshal (Inr sampleFile) Map.empty =
      (None, [''v1-pods'' \<mapsto> [samplePod ''a'', samplePod ''b''],
              ''v1-services'' \<mapsto> [sampleService]]) \<and>
   dom (snd (processMustGatherFile sampleUnicodeLower sampleUnmarshal (Inr sampleFile) Map.empty)) =
     {''v1-pods'', ''v1-services''} \<and>
   map_of sampleNoKindFields ''kind'' = None \<and>
   processItems sampleUnicodeLower ([samplePod ''a''] @ YMap sampleNoKindFields # [samplePod ''b'']) Map.empty =
     [''v1-pods'' \<mapsto> [samplePod ''a'', samplePod ''b'']]"
proof -
  have u: "sampleUnmarshal (TrimSpace sampleListText) = Inr sampleListFields"
    "sampleUnmarshal (TrimSpace (''\<newline>'' @ sampleServiceText @ ''\<newline>'')) = Inr sampleServiceFields"
    by (simp_all only: sampleFile_trim sampleUnmarshal_values)
  have n: "TrimSpace sampleListText \<noteq> ''''" "\<not> HasPrefix (TrimSpace sampleListText) ''#''"
    "TrimSpace (''\<newline>'' @ sampleServiceText @ ''\<newline>'') \<noteq> ''''"
    "\<not> HasPrefix (TrimSpace (''\<newline>'' @ sampleServiceText @ ''\<newline>'')) ''#''"
    by (simp_all only: sampleFile_trim sample_not_comment not_False_eq_True)
  have l: "map_of sampleListFields ''apiVersion'' = Some (YString ''v1'')"
    "map_of sampleListFields ''kind'' = Some (YString ''List'')"
    "map_of sampleListFields ''items'' =
       Some (YList [YMap (samplePodFields ''a''), YMap (samplePodFields ''b'')])"
    by (simp_all add: sampleListFields_def samplePod_def)
  have p: "map_of (samplePodFields name) ''apiVersion'' = Some (YString ''v1'')"
    "map_of (samplePodFields name) ''kind'' = Some (YString ''Pod'')" for name
    by (simp_all add: samplePodFields_def)
  have s: "map_of sampleServiceFields ''apiVersion'' = Some (YString ''v1'')"
    "map_of sampleServiceFields ''kind'' = Some (YString ''Service'')"
    by (simp_all add: sampleServiceFields_def)
  have v: "''v1'' \<noteq> ''''"
    by simp
  have k: "map_of sampleNoKindFields ''kind'' = None"
    by (simp add: sampleNoKindFields_def)
  note t = processMustGatherFile_list_and_service [OF sampleFile_docs n(1,2) u(1) n(3,4) u(2)
      l(1) v l(2,3) p(1) p(2) p(1) p(2) v s(1) v s(2),
      where resourceMap = Map.empty and itemMap = sampleNoKindFields
        and pre = "[samplePod ''a'']" and post = "[samplePod ''b'']"]
  have d: "processItems sampleUnicodeLower ([samplePod ''a''] @ YMap sampleNoKindFields # [samplePod ''b'']) Map.empty =
     [''v1-pods'' \<mapsto> [samplePod ''a'', samplePod ''b'']]"
    using t k samplePods_processed by (simp del: processItems.simps)
  show ?thesis
    using t u l(2,3) k d sampleFile_docs
    by (simp add: sample_keys samplePod_def sampleService_def insert_commute
        del: processItems.simps)
qed

lemma processResource_missing:
  "map_of resource ''kind'' = None \<or> map_of resource ''apiVersion'' = None \<Longrightarrow>
   processResource unicodeLower resource rm = rm"
  by (auto simp: processResource_def stringField_def split: option.splits yval.splits)

lemma processDocs_drop:
  assumes "processDoc unicodeLower unmarshal doc (processDocs unicodeLower unmarshal pre rm) = processDocs unicodeLower unmarshal pre rm"
  shows "processDocs unicodeLower unmarshal (pre @ doc # post) rm = processDocs unicodeLower unmarshal (pre @ post) rm"
  using assms by (simp add: processDocs_append)

text \<open>
  Claim C8. A decoded document that lacks \<^verbatim>\<open>kind\<close> (or \<^verbatim>\<open>apiVersion\<close>) leaves the
  resource map as it is: the loop over the documents of a file gives the map that
  the other documents give, and \<^verbatim>\<open>processMustGatherFile\<close> returns no error for the
  file that contains it.
\<close>

theorem processMustGatherFile_missing_kind:
  "(map_of resource ''kind'' = None \<or> map_of resource ''apiVersion'' = None) \<and>
   unmarshal (TrimSpace doc) = Inr resource \<longrightarrow>
   processResource unicodeLower resource resourceMap = resourceMap \<and>
   processDoc unicodeLower unmarshal doc resourceMap = resourceMap \<and>
   processDocs unicodeLower unmarshal (pre @ doc # post) resourceMap =
     processDocs unicodeLower unmarshal (pre @ post) resourceMap \<and>
   (Split data ''\<newline>---'' = pre @ doc # post \<longrightarrow>
    processMustGatherFile unicodeLower unmarshal (Inr data) resourceMap =
      (None, processDocs unicodeLower unmarshal (pre @ post) resourceMap))"
proof (intro impI)
  assume a: "(map_of resource ''kind'' = None \<or> map_of resource ''apiVersion'' = None) \<and>
    unmarshal (TrimSpace doc) = Inr resource"
  then have r: "processResource unicodeLower resource m = m" for m
    using processResource_missing [of resource unicodeLower m] by blast
  have d: "processDoc unicodeLower unmarshal doc m = m" for m
    using a r by (simp add: processDoc_def Let_def)
  have ds: "processDocs unicodeLower unmarshal (pre @ doc # post) resourceMap =
      processDocs unicodeLower unmarshal (pre @ post) resourceMap"
    by (rule processDocs_drop) (rule d)
  show "processResource unicodeLower resource resourceMap = resourceMap \<and>
    processDoc unicodeLower unmarshal doc resourceMap = resourceMap \<and>
    processDocs unicodeLower unmarshal (pre @ doc # post) resourceMap =
      processDocs unicodeLower unmarshal (pre @ post) resourceMap \<and>
    (Split data ''\<newline>---'' = pre @ doc # post \<longrightarrow>
     processMustGatherFile unicodeLower unmarshal (Inr data) resourceMap =
       (None, processDocs unicodeLower unmarshal (pre @ post) resourceMap))"
    using r d ds by (simp add: processMustGatherFile_def)
qed

lemma sampleFileNoKind_docs:
  "Split sampleFileNoKind ''\<newline>---'' =
     [sampleListText] @ (''\<newline>'' @ sampleNoKindText) # [''\<newline>'' @ sampleServiceText @ ''\<newline>'']"
  by (simp add: sampleFileNoKind_def sampleListText_def sampleServiceText_def sampleNoKindText_def
      Split_def HasPrefix_def)

lemma sampleNoKind_trim: "TrimSpace (''\<newline>'' @ sampleNoKindText) = sampleNoKindText"
  by (simp add: sampleNoKindText_def TrimSpace_def HasPrefix_def spaceRunes_def)

text \<open>C8 on the sample file with the document without \<^verbatim>\<open>kind\<close> between the list and
  the service.\<close>

theorem processMustGatherFile_missing_kind_witness:
  "map_of sampleNoKindFields ''kind'' = None \<and>
   sampleUnmarshal (TrimSpace (''\<newline>'' @ sampleNoKindText)) = Inr sampleNoKindFields \<and>
   processDoc sampleUnicodeLower sampleUnmarshal (''\<newline>'' @ sampleNoKindText) Map.empty = Map.empty \<and>
   Split sampleFileNoKind ''\<newline>---'' =
     [sampleListText] @ (''\<newline>'' @ sampleNoKindText) # [''\<newline>'' @ sampleServiceText @ ''\<newline>''] \<and>
   processMustGatherFile sampleUnicodeLower sampleUnmarshal (Inr sampleFileNoKind) Map.empty =
     (None, [''v1-pods'' \<mapsto> [samplePod ''a'', samplePod ''b''],
             ''v1-services'' \<mapsto> [sampleService]])"
proof -
  have k: "map_of sampleNoKindFields ''kind'' = None"
    by (simp add: sampleNoKindFields_def)
  have u: "sampleUnmarshal (TrimSpace (''\<newline>'' @ sampleNoKindText)) = Inr sampleNoKindFields"
    by (simp only: sampleNoKind_trim sampleUnmarshal_values)
  note r = processMustGatherFile_missing_kind [of sampleNoKindFields sampleUnmarshal
      "''\<newline>'' @ sampleNoKindText" sampleUnicodeLower Map.empty "[sampleListText]"
      "[''\<newline>'' @ sampleServiceText @ ''\<newline>'']" sampleFileNoKind, rule_format]
  have h: "(map_of sampleNoKindFields ''kind'' = None \<or>
      map_of sampleNoKindFields ''apiVersion'' = None) \<and>
      sampleUnmarshal (TrimSpace (''\<newline>'' @ sampleNoKindText)) = Inr sampleNoKindFields"
    using k u by blast
  have d: "processDoc sampleUnicodeLower sampleUnmarshal (''\<newline>'' @ sampleNoKindText) Map.empty = Map.empty"
    using r [OF h] by blast
  have "processMustGatherFile sampleUnicodeLower sampleUnmarshal (Inr sampleFileNoKind) Map.empty =
      (None, processDocs sampleUnicodeLower sampleUnmarshal
               ([sampleListText] @ [''\<newline>'' @ sampleServiceText @ ''\<newline>'']) Map.empty)"
    using r [OF h] sampleFileNoKind_docs by blast
  then have f: "processMustGatherFile sampleUnicodeLower sampleUnmarshal (Inr sampleFileNoKind) Map.empty =
     (None, [''v1-pods'' \<mapsto> [samplePod ''a'', samplePod ''b''],
             ''v1-services'' \<mapsto> [sampleService]])"
    using sample_docs_processed [of sampleUnmarshal] sampleUnmarshal_values by simp
  show ?thesis
    using k u d f sampleFileNoKind_docs by blast
qed

text \<open>
  Claim C10. A candidate document whose text, once trimmed, starts with \<open>#\<close> is
  dropped whole, whatever \<^verbatim>\<open>yaml.Unmarshal\<close> would make of it: the test looks at the
  first byte only, and the map is the one that the other documents give.
\<close>

theorem processMustGatherFile_comment_first:
  "HasPrefix (TrimSpace doc) ''#'' \<longrightarrow>
   processDoc unicodeLower unmarshal doc resourceMap = resourceMap \<and>
   processDocs unicodeLower unmarshal (pre @ doc # post) resourceMap =
     processDocs unicodeLower unmarshal (pre @ post) resourceMap"
proof
  assume a: "HasPrefix (TrimSpace doc) ''#''"
  then have d: "processDoc unicodeLower unmarshal doc m = m" for m
    by (simp add: processDoc_def Let_def)
  have "processDocs unicodeLower unmarshal (pre @ doc # post) resourceMap =
      processDocs unicodeLower unmarshal (pre @ post) resourceMap"
    by (rule processDocs_drop) (rule d)
  with d show "processDoc unicodeLower unmarshal doc resourceMap = resourceMap \<and>
   processDocs unicodeLower unmarshal (pre @ doc # post) resourceMap =
     processDocs unicodeLower unmarshal (pre @ post) resourceMap"
    by simp
qed

lemma sampleCommented_trim: "TrimSpace sampleCommentedText = sampleCommentedText"
  by (simp add: sampleCommentedText_def TrimSpace_def HasPrefix_def spaceRunes_def)

text \<open>
  C10 on a pod under a comment line: the text decodes to the pod, which would be
  keyed under \<open>v1-pods\<close>, and the document is dropped.
\<close>

theorem processMustGatherFile_comment_first_witness:
  "HasPrefix (TrimSpace sampleCommentedText) ''#'' \<and>
   sampleUnmarshal (TrimSpace sampleCommentedText) = Inr (samplePodFields ''a'') \<and>
   processResource sampleUnicodeLower (samplePodFields ''a'') Map.empty = [''v1-pods'' \<mapsto> [samplePod ''a'']] \<and>
   processDoc sampleUnicodeLower sampleUnmarshal sampleCommentedText Map.empty = Map.empty \<and>
   processDocs sampleUnicodeLower sampleUnmarshal
     ([sampleListText] @ sampleCommentedText # [''\<newline>'' @ sampleServiceText @ ''\<newline>'']) Map.empty =
     [''v1-pods'' \<mapsto> [samplePod ''a'', samplePod ''b''], ''v1-services'' \<mapsto> [sampleService]]"
proof -
  have p: "HasPrefix (TrimSpace sampleCommentedText) ''#''"
    unfolding sampleCommented_trim by (simp add: sampleCommentedText_def HasPrefix_def)
  have u: "sampleUnmarshal (TrimSpace sampleCommentedText) = Inr (samplePodFields ''a'')"
    by (simp only: sampleCommented_trim sampleUnmarshal_values)
  have k: "processResource sampleUnicodeLower (samplePodFields ''a'') Map.empty = [''v1-pods'' \<mapsto> [samplePod ''a'']]"
    by (simp add: processResource_def samplePodFields_def samplePod_def stringField_def
        sample_keys appendItem_def itemsOf_def)
  note r = processMustGatherFile_comment_first [of sampleCommentedText sampleUnicodeLower
      sampleUnmarshal Map.empty
      "[sampleListText]" "[''\<newline>'' @ sampleServiceText @ ''\<newline>'']", rule_format, OF p]
  have "processDocs sampleUnicodeLower sampleUnmarshal
     ([sampleListText] @ sampleCommentedText # [''\<newline>'' @ sampleServiceText @ ''\<newline>'']) Map.empty =
     [''v1-pods'' \<mapsto> [samplePod ''a'', samplePod ''b''], ''v1-services'' \<mapsto> [sampleService]]"
    using r sample_docs_processed [of sampleUnmarshal] sampleUnmarshal_values by simp
  then show ?thesis
    using p u k r by blast
qed

section \<open>Rendering and reading back: properties\<close>

lemma splitFrom_single_notin:
  "c \<notin> set s \<Longrightarrow> splitFrom [c] acc s = [rev acc @ s]"
  by (induction s arbitrary: acc) (auto simp: HasPrefix_def)

lemma splitFrom_single_append:
  "splitFrom [c] acc (a @ c # b) = splitFrom [c] acc a @ splitFrom [c] [] b"
  by (induction a arbitrary: acc) (auto simp: HasPrefix_def)

lemma parseLines_append: "parseLines (xs @ ys) = parseLines xs @ parseLines ys"
  by (induction xs) (auto split: list.splits)

lemma parseResources_newline:
  "parseResources (a @ ''\<newline>'' @ b) = parseResources a @ parseResources b"
  by (simp add: parseResources_def Split_def splitFrom_single_append parseLines_append)

lemma runeLen_Suc:
  "runeLen ps s = Suc n \<Longrightarrow> \<exists>p\<in>set ps. HasPrefix s p \<and> length p = Suc n"
  by (induction ps) (auto split: if_splits)

lemma runeLen_none: "\<forall>p\<in>set ps. \<not> HasPrefix s p \<Longrightarrow> runeLen ps s = 0"
  by (induction ps) auto

lemma trimRunes_stops:
  assumes ps: "\<forall>p\<in>set ps. p \<noteq> [] \<and> c \<notin> set p"
  shows "\<exists>x'. trimRunes ps (x @ c # rest) = x' @ c # rest"
proof (induction "length x" arbitrary: x rule: less_induct)
  case less
  show ?case
  proof (cases x)
    case Nil
    have "\<not> HasPrefix (c # rest) p" if "p \<in> set ps" for p
    proof
      assume "HasPrefix (c # rest) p"
      moreover from ps that have "p \<noteq> []" by blast
      then obtain q qs where "p = q # qs" by (cases p) auto
      ultimately have "q = c" by (simp add: HasPrefix_def)
      with \<open>p = q # qs\<close> ps that show False by auto
    qed
    then have "runeLen ps (c # rest) = 0" by (intro runeLen_none) blast
    with Nil show ?thesis by simp
  next
    case (Cons a x')
    show ?thesis
    proof (cases "runeLen ps (a # x' @ c # rest)")
      case 0
      with Cons have "trimRunes ps (x @ c # rest) = x @ c # rest" by simp
      then show ?thesis by blast
    next
      case (Suc n)
      then obtain p where p: "p \<in> set ps" "HasPrefix (a # x' @ c # rest) p" "length p = Suc n"
        using runeLen_Suc by blast
      have "Suc n \<le> length x"
      proof (rule ccontr)
        assume "\<not> Suc n \<le> length x"
        then have lt: "length x < length p" using p(3) by simp
        from p(2) have "take (length p) (x @ c # rest) = p"
          using Cons by (simp add: HasPrefix_def)
        then have "p ! length x = (x @ c # rest) ! length x"
          using lt by (metis nth_take)
        then have "p ! length x = c" by simp
        then have "c \<in> set p" using lt by (metis nth_mem)
        with ps p(1) show False by blast
      qed
      then have n: "n \<le> length x'" using Cons by simp
      have "trimRunes ps (x @ c # rest) = trimRunes ps (drop n x' @ c # rest)"
        using Cons Suc n by simp
      moreover have "length (drop n x') < length x" using Cons by simp
      ultimately show ?thesis using less.hyps [of "drop n x'"] by simp
    qed
  qed
qed

lemma trimLeft_marker:
  "trimRunes spaceRunes (''--- # Resource: '' @ key) = ''--- # Resource: '' @ key"
  by (simp add: spaceRunes_def HasPrefix_def)

lemma marker_line_prefix: "HasPrefix (TrimSpace (''--- # Resource: '' @ key)) ''--- # Resource:''"
proof -
  have "\<forall>p\<in>set (map rev spaceRunes). p \<noteq> [] \<and> CHR '':'' \<notin> set p"
    by (simp add: spaceRunes_def)
  from trimRunes_stops [OF this, of "rev key @ '' ''" "rev ''--- # Resource''"]
  obtain x' where "trimRunes (map rev spaceRunes) (rev (''--- # Resource: '' @ key)) =
      x' @ CHR '':'' # rev ''--- # Resource''"
    by auto
  then have "TrimSpace (''--- # Resource: '' @ key) = ''--- # Resource:'' @ rev x'"
    unfolding TrimSpace_def trimLeft_marker by simp
  then show ?thesis by (simp add: HasPrefix_def)
qed

lemma TrimSpace_space: "TrimSpace (CHR '' '' # key) = TrimSpace key"
  by (simp add: TrimSpace_def spaceRunes_def HasPrefix_def)

lemma marker_line_cut:
  "SplitN2 (''--- # Resource: '' @ key) '':'' = [''--- # Resource'', CHR '' '' # key]"
  by (simp add: SplitN2_def HasPrefix_def)

lemma parseResources_marker:
  assumes "CHR ''\<newline>'' \<notin> set key" "TrimSpace key = key"
  shows "parseResources (''--- # Resource: '' @ key) = [key]"
proof -
  have "CHR ''\<newline>'' \<notin> set (''--- # Resource: '' @ key)"
    using assms(1) by simp
  then have "Split (''--- # Resource: '' @ key) ''\<newline>'' = [''--- # Resource: '' @ key]"
    unfolding Split_def by (subst splitFrom_single_notin) simp_all
  then show ?thesis
    using assms(2) marker_line_prefix [of key]
    by (simp add: parseResources_def marker_line_cut TrimSpace_space del: append.simps)
qed

lemma parseResources_empty: "parseResources '''' = []"
  by (simp add: parseResources_def Split_def TrimSpace_def HasPrefix_def)

lemma buildSingleFile_sections:
  "buildSingleFile marshal rm keys acc = acc @ concat (map (sectionOf marshal rm) keys)"
  by (induction keys arbitrary: acc) (simp_all add: Let_def sectionOf_def split: sum.splits)

lemma parseResources_section:
  assumes "itemsOf rm key \<noteq> []" "CHR ''\<newline>'' \<notin> set key" "TrimSpace key = key"
    and "\<And>yamlData. marshal (listDocument (itemsOf rm key)) = Inr yamlData \<Longrightarrow>
           parseResources yamlData = []"
  shows "parseResources (sectionOf marshal rm key @ rest) = key # parseResources rest"
proof (cases "marshal (listDocument (itemsOf rm key))")
  case (Inl err)
  then have "sectionOf marshal rm key @ rest = (''--- # Resource: '' @ key) @ ''\<newline>'' @ rest"
    using assms(1) by (simp add: sectionOf_def)
  then show ?thesis
    using parseResources_marker [OF assms(2,3)] by (simp only: parseResources_newline) simp
next
  case (Inr yamlData)
  then have "sectionOf marshal rm key @ rest =
      (''--- # Resource: '' @ key) @ ''\<newline>'' @ (yamlData @ ''\<newline>'' @ rest)"
    using assms(1) by (simp add: sectionOf_def)
  then show ?thesis
    using parseResources_marker [OF assms(2,3)] assms(4) [OF Inr]
    by (simp only: parseResources_newline) simp
qed

lemma parseResources_sections:
  assumes "\<forall>key\<in>set keys. itemsOf rm key \<noteq> [] \<longrightarrow>
             CHR ''\<newline>'' \<notin> set key \<and> TrimSpace key = key \<and>
             (\<forall>yamlData. marshal (listDocument (itemsOf rm key)) = Inr yamlData \<longrightarrow>
                parseResources yamlData = [])"
  shows "parseResources (concat (map (sectionOf marshal rm) keys)) =
         filter (\<lambda>key. itemsOf rm key \<noteq> []) keys"
  using assms
proof (induction keys)
  case Nil
  show ?case by (simp add: parseResources_empty)
next
  case (Cons key keys)
  then have IH: "parseResources (concat (map (sectionOf marshal rm) keys)) =
         filter (\<lambda>key. itemsOf rm key \<noteq> []) keys"
    by simp
  show ?case
  proof (cases "itemsOf rm key = []")
    case True
    then have "sectionOf marshal rm key = []" by (simp add: sectionOf_def)
    with True IH show ?thesis by simp
  next
    case False
    with Cons.prems have "parseResources (sectionOf marshal rm key @ concat (map (sectionOf marshal rm) keys)) =
        key # parseResources (concat (map (sectionOf marshal rm) keys))"
      by (intro parseResources_section) auto
    with False IH show ?thesis by simp
  qed
qed

text \<open>
  Claim C2, as amended. Take an inventory and the keys in the order in which the
  rendering visits them. If every key that has an item contains no line feed and has
  no white space at its ends, and no marshalled list contains a line that the marker
  extractor takes for a marker, then \<^const>\<open>parseResources\<close> on the rendered text gives
  exactly the keys that have at least one item, each once, in the order of their
  sections; when the keys visited are the keys of the map, each once, these are as a
  set the keys of the inventory with at least one item.
\<close>

theorem parseResources_buildSingleFile:
  assumes "\<forall>key\<in>set keys. itemsOf resourceMap key \<noteq> [] \<longrightarrow>
             CHR ''\<newline>'' \<notin> set key \<and> TrimSpace key = key \<and>
             (\<forall>yamlData. marshal (listDocument (itemsOf resourceMap key)) = Inr yamlData \<longrightarrow>
                parseResources yamlData = [])"
  shows "parseResources (buildSingleFile marshal resourceMap keys '''') =
           filter (\<lambda>key. itemsOf resourceMap key \<noteq> []) keys \<and>
         (distinct keys \<and> set keys = dom resourceMap \<longrightarrow>
            distinct (parseResources (buildSingleFile marshal resourceMap keys '''')) \<and>
            set (parseResources (buildSingleFile marshal resourceMap keys '''')) =
              {key. \<exists>items. resourceMap key = Some items \<and> items \<noteq> []})"
proof -
  have eq: "parseResources (buildSingleFile marshal resourceMap keys '''') =
           filter (\<lambda>key. itemsOf resourceMap key \<noteq> []) keys"
    using parseResources_sections [OF assms] by (simp add: buildSingleFile_sections)
  have "set (filter (\<lambda>key. itemsOf resourceMap key \<noteq> []) keys) =
      {key. \<exists>items. resourceMap key = Some items \<and> items \<noteq> []}"
    if "set keys = dom resourceMap"
    using that by (auto simp: itemsOf_def split: option.splits)
  with eq show ?thesis by simp
qed

lemma sampleMarshal_pods:
  "sampleMarshal (listDocument [samplePod ''a'', samplePod ''b'']) = Inr samplePodsYaml"
  by (simp add: sampleMarshal_def)

lemma sampleMarshal_services: "sampleMarshal (listDocument [sampleService]) = Inr sampleServicesYaml"
  by (simp add: sampleMarshal_def listDocument_def)

lemma sampleMarshal_configmaps:
  "sampleMarshal (listDocument [sampleConfigMap]) = Inr sampleConfigMapsYaml"
  by (simp add: sampleMarshal_def listDocument_def sampleConfigMap_def sampleService_def
      sampleServiceFields_def)

lemma sample_pods_body: "parseResources samplePodsYaml = []"
  by (simp add: samplePodsYaml_def parseResources_def Split_def HasPrefix_def TrimSpace_def
      spaceRunes_def)

lemma sample_services_body: "parseResources sampleServicesYaml = []"
  by (simp add: sampleServicesYaml_def parseResources_def Split_def HasPrefix_def TrimSpace_def
      spaceRunes_def)

lemma sample_keys_trim:
  "TrimSpace ''v1-pods'' = ''v1-pods''" "TrimSpace ''v1-services'' = ''v1-services''"
  by (simp_all add: HasPrefix_def TrimSpace_def spaceRunes_def)

lemma sampleInventory_items:
  "itemsOf sampleInventory ''v1-pods'' = [samplePod ''a'', samplePod ''b'']"
  "itemsOf sampleInventory ''v1-services'' = [sampleService]"
  by (simp_all add: sampleInventory_def itemsOf_def)

text \<open>The sample inventory, visited services first: the hypotheses of C2 as amended hold.\<close>

theorem parseResources_buildSingleFile_witness:
  "TrimSpace ''v1-pods'' = ''v1-pods'' \<and> TrimSpace ''v1-services'' = ''v1-services'' \<and>
   set [''v1-services'', ''v1-pods''] = dom sampleInventory \<and>
   parseResources (buildSingleFile sampleMarshal sampleInventory [''v1-services'', ''v1-pods''] '''') =
     [''v1-services'', ''v1-pods''] \<and>
   set (parseResources (buildSingleFile sampleMarshal sampleInventory [''v1-services'', ''v1-pods''] ''''))
     = {key. \<exists>items. sampleInventory key = Some items \<and> items \<noteq> []}"
proof -
  let ?out = "buildSingleFile sampleMarshal sampleInventory [''v1-services'', ''v1-pods''] ''''"
  have hyp: "\<forall>key\<in>set [''v1-services'', ''v1-pods'']. itemsOf sampleInventory key \<noteq> [] \<longrightarrow>
             CHR ''\<newline>'' \<notin> set key \<and> TrimSpace key = key \<and>
             (\<forall>yamlData. sampleMarshal (listDocument (itemsOf sampleInventory key)) = Inr yamlData \<longrightarrow>
                parseResources yamlData = [])"
    using sample_pods_body sample_services_body
    by (simp add: sampleInventory_items sample_keys_trim sampleMarshal_pods sampleMarshal_services)
  have d: "distinct [''v1-services'', ''v1-pods''] \<and>
      set [''v1-services'', ''v1-pods''] = dom sampleInventory"
    by (auto simp: sampleInventory_def)
  note r = parseResources_buildSingleFile [OF hyp]
  have a: "parseResources ?out = [''v1-services'', ''v1-pods'']"
    using r [THEN conjunct1] by (simp add: sampleInventory_items del: buildSingleFile.simps)
  have b: "set (parseResources ?out) = {key. \<exists>items. sampleInventory key = Some items \<and> items \<noteq> []}"
    using r [THEN conjunct2] d by blast
  show ?thesis
    using a b d sample_keys_trim by blast
qed

text \<open>
  Claim C2 as stated fails: an inventory with the one key \<open>v1-configmaps\<close>, whose
  config map holds the text of a marker line in its data, is rendered to a text from
  which the extractor reads two names, the key and \<open>pods\<close>. The marshalled list
  carries the line indented in a block scalar, and the extractor trims each line
  before it looks for the marker.
\<close>

theorem parseResources_gains_marker:
  "parseResources (buildSingleFile sampleMarshal [''v1-configmaps'' \<mapsto> [sampleConfigMap]]
                     [''v1-configmaps''] '''') = [''v1-configmaps'', ''pods'']"
proof -
  have "sectionOf sampleMarshal [''v1-configmaps'' \<mapsto> [sampleConfigMap]] ''v1-configmaps'' =
      ''--- # Resource: v1-configmaps\<newline>'' @ sampleConfigMapsYaml @ ''\<newline>''"
    unfolding sectionOf_def by (simp add: itemsOf_def sampleMarshal_configmaps)
  then show ?thesis
    unfolding buildSingleFile_sections
    by (simp add: sampleConfigMapsYaml_def parseResources_def Split_def SplitN2_def HasPrefix_def
        TrimSpace_def spaceRunes_def)
qed

lemma sampleEntries_inventory:
  "foldl (walkFile unicodeLower sampleUnmarshal) Map.empty sampleEntries = sampleInventory"
proof -
  have "processMustGatherFile unicodeLower sampleUnmarshal (Inr sampleFile) Map.empty =
      (None, sampleInventory)"
    using sample_docs_processed [of sampleUnmarshal] sampleUnmarshal_values
    by (simp add: processMustGatherFile_def sampleFile_docs sampleInventory_def
        del: processDocs.simps append.simps)
  then show ?thesis
    by (simp add: sampleEntries_def walkFile_def HasSuffix_def)
qed

lemma processMustGatherToSingleFile_output:
  "snd (processMustGatherToSingleFile unicodeLower unmarshal marshal rangeKeys writeFile entries) =
     buildSingleFile marshal (foldl (walkFile unicodeLower unmarshal) Map.empty entries)
       (rangeKeys (foldl (walkFile unicodeLower unmarshal) Map.empty entries)) ''''"
  by (simp add: processMustGatherToSingleFile_def Let_def)

text \<open>
  Claim C1: the sections are emitted in sorted key order, so that two renderings of
  one inventory are the same text. \<^verbatim>\<open>processMustGatherToSingleFile\<close> fills \<^verbatim>\<open>keys\<close> from
  a \<^verbatim>\<open>range\<close> over the map, under the comment "Sort keys for consistent output", and
  does not sort it. On the sample directory a \<^verbatim>\<open>range\<close> that yields \<open>v1-services\<close>
  first puts that section first, and the text differs from the one of a \<^verbatim>\<open>range\<close>
  that yields \<open>v1-pods\<close> first, whatever \<^verbatim>\<open>yaml.Marshal\<close> and \<^verbatim>\<open>os.WriteFile\<close> return.
\<close>

theorem processMustGatherToSingleFile_range_order:
  "set (rangeServicesFirst sampleInventory) = dom sampleInventory \<and>
   set (rangePodsFirst sampleInventory) = dom sampleInventory \<and>
   snd (processMustGatherToSingleFile unicodeLower sampleUnmarshal marshal rangeServicesFirst writeFile
          sampleEntries) \<noteq>
   snd (processMustGatherToSingleFile unicodeLower sampleUnmarshal marshal rangePodsFirst writeFile
          sampleEntries) \<and>
   HasPrefix (snd (processMustGatherToSingleFile unicodeLower sampleUnmarshal marshal rangeServicesFirst
                     writeFile sampleEntries)) ''--- # Resource: v1-services''"
proof -
  have d: "dom sampleInventory = {''v1-pods'', ''v1-services''}"
    by (auto simp: sampleInventory_def)
  have a: "buildSingleFile marshal sampleInventory [''v1-services'', ''v1-pods''] '''' \<noteq>
     buildSingleFile marshal sampleInventory [''v1-pods'', ''v1-services''] ''''"
    by (simp add: buildSingleFile_sections sectionOf_def sampleInventory_items)
  have b: "HasPrefix (buildSingleFile marshal sampleInventory [''v1-services'', ''v1-pods''] '''')
     ''--- # Resource: v1-services''"
    by (simp add: buildSingleFile_sections sectionOf_def sampleInventory_items HasPrefix_def)
  show ?thesis
    unfolding processMustGatherToSingleFile_output sampleEntries_inventory
      rangeServicesFirst_def rangePodsFirst_def
    using a b d by auto
qed

section \<open>Live collection: properties\<close>

lemma collectStep_nil_version:
  "collectStep skip collect None = collectStep skip' collect None"
  by (intro ext) (simp add: collectStep_def split: prod.splits)

lemma shouldSkipResource_rules: "shouldSkipResource = shouldSkipResourceIn getDeprecationRules"
  by (intro ext) (simp add: shouldSkipResource_def shouldSkipResourceIn_def isDeprecated_def)

lemma collectStep_no_rules:
  "collectStep (shouldSkipResourceIn []) collect clusterVersion = collectStep skip collect None"
  by (intro ext) (simp add: collectStep_def shouldSkipResourceIn_def split: prod.splits option.splits)

lemma collectStep_skipped_nil:
  "skippedCount (collectStep skip collect None st entry) = skippedCount st"
  by (simp add: collectStep_def split: prod.splits option.splits)

lemma foldl_skipped_nil:
  "skippedCount (foldl (collectStep skip collect None) st entries) = skippedCount st"
  by (induction entries arbitrary: st) (simp_all add: collectStep_skipped_nil)



lemma collectResource_version_free:
  "collectResource (w\<lparr>ServerVersion := sv, ServerGroups := sg\<rparr>) = collectResource w"
  by (intro ext) (simp add: collectResource_def Let_def split: sum.splits prod.splits option.splits)

lemma collectResourceToBuffer_version_free:
  "collectResourceToBuffer (w\<lparr>ServerVersion := sv, ServerGroups := sg\<rparr>) = collectResourceToBuffer w"
  by (intro ext) (simp add: collectResourceToBuffer_def split: sum.splits prod.splits)

text \<open>
  Claim C6. When the detection of the cluster version fails, both collection
  functions run with the \<^verbatim>\<open>nil\<close> version: the run is the same for every skip decision
  put in the place of \<^const>\<open>shouldSkipResource\<close>, so the decision is not consulted;
  the count of skipped resources stays zero; and the run is the one that an empty
  rule list gives, whatever version is detected.
\<close>

theorem collect_without_version:
  assumes "detectClusterVersion w = Inl err"
  shows "collectResourcesWith skip w outputDir = collectResources w outputDir \<and>
         collectAllResourcesToSingleFileWith skip w outputFile =
           collectAllResourcesToSingleFile w outputFile \<and>
         skippedCount (snd (collectResources w outputDir)) = 0 \<and>
         skippedCount (snd (collectAllResourcesToSingleFile w outputFile)) = 0 \<and>
         collectResourcesWith (shouldSkipResourceIn []) (w\<lparr>ServerVersion := sv, ServerGroups := sg\<rparr>)
           outputDir = collectResources w outputDir \<and>
         collectAllResourcesToSingleFileWith (shouldSkipResourceIn [])
           (w\<lparr>ServerVersion := sv, ServerGroups := sg\<rparr>) outputFile =
           collectAllResourcesToSingleFile w outputFile"
proof -
  have nil: "clusterVersionOrNil w = None"
    using assms by (simp add: clusterVersionOrNil_def)
  have a: "collectResourcesWith skip w outputDir = collectResourcesWith skip' w outputDir"
    for skip skip'
    unfolding collectResourcesWith_def nil Let_def
    by (simp only: collectStep_nil_version [of skip _ skip'])
  have b: "collectAllResourcesToSingleFileWith skip w outputFile =
      collectAllResourcesToSingleFileWith skip' w outputFile" for skip skip'
    unfolding collectAllResourcesToSingleFileWith_def nil Let_def
    by (simp only: collectStep_nil_version [of skip _ skip'])
  have c: "skippedCount (snd (collectResourcesWith skip w outputDir)) = 0" for skip
    unfolding collectResourcesWith_def nil Let_def
    by (simp add: foldl_skipped_nil initialState_def split: sum.splits)
  have d: "skippedCount (snd (collectAllResourcesToSingleFileWith skip w outputFile)) = 0" for skip
    unfolding collectAllResourcesToSingleFileWith_def nil Let_def
    by (simp add: foldl_skipped_nil initialState_def split: sum.splits option.splits)
  have e: "collectResourcesWith (shouldSkipResourceIn []) (w\<lparr>ServerVersion := sv, ServerGroups := sg\<rparr>)
      outputDir = collectResourcesWith skip w outputDir" for skip
    unfolding collectResourcesWith_def nil Let_def collectResource_version_free
    by (simp add: collectStep_no_rules [of _ _ skip] split: sum.splits)
  have f: "collectAllResourcesToSingleFileWith (shouldSkipResourceIn [])
      (w\<lparr>ServerVersion := sv, ServerGroups := sg\<rparr>) outputFile =
      collectAllResourcesToSingleFileWith skip w outputFile" for skip
    unfolding collectAllResourcesToSingleFileWith_def nil Let_def collectResourceToBuffer_version_free
    by (simp add: collectStep_no_rules [of _ _ skip] split: sum.splits option.splits)
  show ?thesis
    unfolding collectResources_def collectAllResourcesToSingleFile_def
    using a b c d e f by blast
qed

lemma collectStep_failure:
  assumes "eligible (groupVersion, resource)" "\<not> skippedBy skip cv (groupVersion, resource)"
    and "collect resource groupVersion (produced st) = (Some err, produced st)"
  shows "collectStep skip collect cv st (groupVersion, resource) =
         st\<lparr>errorCount := errorCount st + 1\<rparr>"
  using assms by (auto simp: collectStep_def eligible_def skippedBy_def split: option.splits)

lemma collectResourceToBuffer_error:
  "fst (collectResourceToBuffer w resource groupVersion buffer) = Some err \<Longrightarrow>
   collectResourceToBuffer w resource groupVersion buffer = (Some err, buffer)"
  by (auto simp: collectResourceToBuffer_def split: sum.splits prod.splits)

lemma collectResource_error:
  "fst (collectResource w outputDir resource groupVersion files) = Some err \<Longrightarrow>
   collectResource w outputDir resource groupVersion files = (Some err, files)"
  by (auto simp: collectResource_def Let_def split: sum.splits prod.splits option.splits)

lemma sampleWorld_no_version:
  "detectClusterVersion sampleWorld =
     Inl (Errorf ''failed to get server version'' (External ''connection refused''))"
  by (simp add: detectClusterVersion_def sampleWorld_def)

lemma sampleWorld_fetch:
  "collectResourceToBuffer sampleWorld samplePods ''v1'' buffer =
     (None, buffer @ ''--- # Resource: pods\<newline>'' @ samplePodsYaml @ ''\<newline>'')"
  "collectResourceToBuffer sampleWorld sampleEndpoints ''v1'' buffer =
     (Some (Errorf ''failed to get resource instances for endpoints''
              (External ''context deadline exceeded'')), buffer)"
  by (simp_all add: collectResourceToBuffer_def sampleWorld_def sampleMarshal_def samplePods_def
      sampleEndpoints_def)

lemma sampleWorld_fetch_dir:
  "collectResource sampleWorld outputDir sampleEndpoints ''v1'' files =
     (Some (Errorf ''failed to get resource instances for endpoints''
              (External ''context deadline exceeded'')), files)"
  by (simp add: collectResource_def sampleWorld_def sampleEndpoints_def)

lemma sampleWorld_eligible:
  "eligible (''v1'', samplePods)" "\<not> eligible (''v1'', samplePodsStatus)"
  "eligible (''v1'', sampleEndpoints)"
  by (simp_all add: eligible_def HasPrefix_def samplePods_def samplePodsStatus_def
      sampleEndpoints_def)

lemma sampleWorld_pairs:
  "resourcePairs sampleResources =
     [(''v1'', samplePods), (''v1'', samplePodsStatus), (''v1'', sampleEndpoints)]"
  by (simp add: sampleResources_def resourcePairs_def)

lemma collectStep_ineligible:
  "\<not> eligible entry \<Longrightarrow> collectStep skip collect cv st entry = st"
  by (auto simp: collectStep_def eligible_def split: prod.splits)

lemma collectStep_success:
  assumes "eligible (groupVersion, resource)" "\<not> skippedBy skip cv (groupVersion, resource)"
    and "collect resource groupVersion (produced st) = (None, out)"
  shows "collectStep skip collect cv st (groupVersion, resource) =
         st\<lparr>produced := out, collectedCount := collectedCount st + 1\<rparr>"
  using assms by (auto simp: collectStep_def eligible_def skippedBy_def split: option.splits)

lemma sampleWorld_loop:
  "foldl (collectStep skip (collectResourceToBuffer sampleWorld) None) (initialState '''')
     (resourcePairs sampleResources) =
   \<lparr>produced = ''--- # Resource: pods\<newline>'' @ samplePodsYaml @ ''\<newline>'',
    collectedCount = 1, errorCount = 1, skippedCount = 0\<rparr>"
proof -
  have s: "\<not> skippedBy skip None entry" for entry
    by (simp add: skippedBy_def)
  have 1: "collectStep skip (collectResourceToBuffer sampleWorld) None (initialState '''')
      (''v1'', samplePods) =
      \<lparr>produced = ''--- # Resource: pods\<newline>'' @ samplePodsYaml @ ''\<newline>'',
       collectedCount = 1, errorCount = 0, skippedCount = 0\<rparr>"
    by (subst collectStep_success [where collect = "collectResourceToBuffer sampleWorld",
          OF sampleWorld_eligible(1) s sampleWorld_fetch(1)])
       (simp add: initialState_def)
  have 2: "collectStep skip (collectResourceToBuffer sampleWorld) None st
      (''v1'', samplePodsStatus) = st" for st
    by (rule collectStep_ineligible [OF sampleWorld_eligible(2)])
  have 3: "collectStep skip (collectResourceToBuffer sampleWorld) None st
      (''v1'', sampleEndpoints) = st\<lparr>errorCount := errorCount st + 1\<rparr>" for st
    by (rule collectStep_failure [where collect = "collectResourceToBuffer sampleWorld",
          OF sampleWorld_eligible(3) s sampleWorld_fetch(2)])
  show ?thesis
    by (simp only: sampleWorld_pairs foldl_Cons foldl_Nil 1 2 3) simp
qed

lemma sampleWorld_run:
  "collectAllResourcesToSingleFileWith skip sampleWorld outputFile =
     (None, \<lparr>produced = ''--- # Resource: pods\<newline>'' @ samplePodsYaml @ ''\<newline>'',
             collectedCount = 1, errorCount = 1, skippedCount = 0\<rparr>)"
proof -
  have nil: "clusterVersionOrNil sampleWorld = None"
    by (simp add: clusterVersionOrNil_def sampleWorld_no_version)
  have r: "ServerPreferredResources sampleWorld = Inr sampleResources"
    by (simp add: sampleWorld_def)
  have w: "WriteFile sampleWorld outputFile content = None" for content
    by (simp add: sampleWorld_def)
  show ?thesis
    unfolding collectAllResourcesToSingleFileWith_def nil Let_def r
    by (simp only: sum.case sampleWorld_loop w option.case)
qed

lemma fullDisk_fetch: "collectResourceToBuffer sampleWorldFullDisk = collectResourceToBuffer sampleWorld"
  by (intro ext) (simp add: collectResourceToBuffer_def sampleWorldFullDisk_def
      split: sum.splits prod.splits)

lemma fullDisk_no_version: "clusterVersionOrNil sampleWorldFullDisk = None"
  by (simp add: clusterVersionOrNil_def detectClusterVersion_def sampleWorldFullDisk_def
      sampleWorld_def)

text \<open>
  C6 on the sample cluster: the run with the decision that skips everything, and the
  run with no rules on a cluster that reports version 1.33, are the run of the
  program, which collects \<open>pods\<close>, fails on \<open>endpoints\<close> and skips nothing.
\<close>

theorem collect_without_version_witness:
  "detectClusterVersion sampleWorld =
     Inl (Errorf ''failed to get server version'' (External ''connection refused'')) \<and>
   collectAllResourcesToSingleFileWith skipAlways sampleWorld ''out.yaml'' =
     collectAllResourcesToSingleFile sampleWorld ''out.yaml'' \<and>
   collectAllResourcesToSingleFileWith (shouldSkipResourceIn [])
     (sampleWorld\<lparr>ServerVersion := Inr (''1'', ''33''), ServerGroups := Inr []\<rparr>) ''out.yaml'' =
     collectAllResourcesToSingleFile sampleWorld ''out.yaml'' \<and>
   collectAllResourcesToSingleFile sampleWorld ''out.yaml'' =
     (None, \<lparr>produced = ''--- # Resource: pods\<newline>'' @ samplePodsYaml @ ''\<newline>'',
             collectedCount = 1, errorCount = 1, skippedCount = 0\<rparr>)"
  using collect_without_version [OF sampleWorld_no_version, where skip = skipAlways
      and outputFile = "''out.yaml''" and sv = "Inr (''1'', ''33'')" and sg = "Inr []"]
    sampleWorld_no_version
    sampleWorld_run [of shouldSkipResource "''out.yaml''"]
  unfolding collectAllResourcesToSingleFile_def by blast

lemma collectResourceToBuffer_fst:
  "fst (collectResourceToBuffer w resource groupVersion buffer) =
   fst (collectResourceToBuffer w resource groupVersion '''')"
  by (simp add: collectResourceToBuffer_def split: sum.splits prod.splits)

lemma collectResource_fst:
  "fst (collectResource w outputDir resource groupVersion files) =
   fst (collectResource w outputDir resource groupVersion [])"
  by (simp add: collectResource_def Let_def split: sum.splits prod.splits option.splits)

lemma fetchFails_iff:
  "(fst (collectResourceToBuffer w resource groupVersion buffer) \<noteq> None) =
   fetchFails w (groupVersion, resource)"
  unfolding fetchFails_def using collectResourceToBuffer_fst [of w resource groupVersion buffer]
  by simp

lemma dirFails_iff:
  "(fst (collectResource w outputDir resource groupVersion files) \<noteq> None) =
   dirFails w outputDir (groupVersion, resource)"
  unfolding dirFails_def using collectResource_fst [of w outputDir resource groupVersion files]
  by simp

lemma collectStep_exact:
  assumes "\<And>resource groupVersion out.
      (fst (collect resource groupVersion out) \<noteq> None) = fails (groupVersion, resource)"
  shows "collectedCount (collectStep skip collect cv st entry) =
      collectedCount st + (if attempted skip cv entry \<and> \<not> fails entry then 1 else 0)"
    and "errorCount (collectStep skip collect cv st entry) =
      errorCount st + (if attempted skip cv entry \<and> fails entry then 1 else 0)"
    and "skippedCount (collectStep skip collect cv st entry) =
      skippedCount st + (if eligible entry \<and> skippedBy skip cv entry then 1 else 0)"
proof -
  obtain groupVersion resource where e: "entry = (groupVersion, resource)"
    by (cases entry)
  obtain r out where c: "collect resource groupVersion (produced st) = (r, out)"
    by (cases "collect resource groupVersion (produced st)")
  have f: "fails (groupVersion, resource) = (r \<noteq> None)"
    using assms [of resource groupVersion "produced st"] c by simp
  show "collectedCount (collectStep skip collect cv st entry) =
      collectedCount st + (if attempted skip cv entry \<and> \<not> fails entry then 1 else 0)"
    and "errorCount (collectStep skip collect cv st entry) =
      errorCount st + (if attempted skip cv entry \<and> fails entry then 1 else 0)"
    and "skippedCount (collectStep skip collect cv st entry) =
      skippedCount st + (if eligible entry \<and> skippedBy skip cv entry then 1 else 0)"
    unfolding e f
    by (cases r; simp add: collectStep_def attempted_def eligible_def skippedBy_def c
        split: option.splits)+
qed

lemma foldl_exact:
  assumes "\<And>resource groupVersion out.
      (fst (collect resource groupVersion out) \<noteq> None) = fails (groupVersion, resource)"
  shows "collectedCount (foldl (collectStep skip collect cv) st entries) =
      collectedCount st + length (filter (\<lambda>e. attempted skip cv e \<and> \<not> fails e) entries) \<and>
    errorCount (foldl (collectStep skip collect cv) st entries) =
      errorCount st + length (filter (\<lambda>e. attempted skip cv e \<and> fails e) entries) \<and>
    skippedCount (foldl (collectStep skip collect cv) st entries) =
      skippedCount st + length (filter (\<lambda>e. eligible e \<and> skippedBy skip cv e) entries)"
proof (induction entries arbitrary: st)
  case Nil
  show ?case by simp
next
  case (Cons entry entries)
  show ?case
    using Cons.IH [of "collectStep skip collect cv st entry"]
      collectStep_exact [of collect fails skip cv st entry, OF assms]
    by simp
qed

lemma collectStep_bump:
  "collectStep skip collect cv (st\<lparr>errorCount := errorCount st + k\<rparr>) entry =
   (collectStep skip collect cv st entry)
     \<lparr>errorCount := errorCount (collectStep skip collect cv st entry) + k\<rparr>"
  by (cases entry; cases "collect (snd entry) (fst entry) (produced st)";
      cases "fst (collect (snd entry) (fst entry) (produced st))")
     (auto simp: collectStep_def split: option.splits)

lemma foldl_bump:
  "foldl (collectStep skip collect cv) (st\<lparr>errorCount := errorCount st + k\<rparr>) entries =
   (foldl (collectStep skip collect cv) st entries)
     \<lparr>errorCount := errorCount (foldl (collectStep skip collect cv) st entries) + k\<rparr>"
proof (induction entries arbitrary: st)
  case Nil
  show ?case by simp
next
  case (Cons entry entries)
  show ?case
    by (simp only: foldl_Cons collectStep_bump Cons.IH)
qed

lemma foldl_remove_failing:
  assumes "attempted skip cv (groupVersion, resource)"
    and "\<And>out. \<exists>err. collect resource groupVersion out = (Some err, out)"
  shows "foldl (collectStep skip collect cv) st (pre @ (groupVersion, resource) # post) =
    (foldl (collectStep skip collect cv) st (pre @ post))
      \<lparr>errorCount := errorCount (foldl (collectStep skip collect cv) st (pre @ post)) + 1\<rparr>"
proof -
  let ?mid = "foldl (collectStep skip collect cv) st pre"
  obtain err where "collect resource groupVersion (produced ?mid) = (Some err, produced ?mid)"
    using assms(2) by blast
  then have "collectStep skip collect cv ?mid (groupVersion, resource) =
      ?mid\<lparr>errorCount := errorCount ?mid + 1\<rparr>"
    using assms(1) collectStep_failure [where collect = collect and st = ?mid]
    by (simp add: attempted_def)
  then show ?thesis
    by (simp only: foldl_append foldl_Cons foldl_bump)
qed

lemma resources_update_version:
  "clusterVersionOrNil (w\<lparr>ServerPreferredResources := r\<rparr>) = clusterVersionOrNil w"
  by (simp add: clusterVersionOrNil_def detectClusterVersion_def
      cong: sum.case_cong prod.case_cong)

lemma resources_update_fetch:
  "collectResourceToBuffer (w\<lparr>ServerPreferredResources := r\<rparr>) = collectResourceToBuffer w"
  by (intro ext) (simp add: collectResourceToBuffer_def split: sum.splits prod.splits)

lemma resources_update_dir:
  "collectResource (w\<lparr>ServerPreferredResources := r\<rparr>) = collectResource w"
  by (intro ext) (simp add: collectResource_def Let_def split: sum.splits prod.splits option.splits)

lemma fetch_failure_keeps:
  assumes "fetchFails w (groupVersion, resource)"
  shows "\<exists>err. collectResourceToBuffer w resource groupVersion out = (Some err, out)"
proof -
  from assms obtain err where "fst (collectResourceToBuffer w resource groupVersion out) = Some err"
    using fetchFails_iff [of w resource groupVersion out] by auto
  then show ?thesis
    using collectResourceToBuffer_error by blast
qed

lemma dir_failure_keeps:
  assumes "dirFails w outputDir (groupVersion, resource)"
  shows "\<exists>err. collectResource w outputDir resource groupVersion out = (Some err, out)"
proof -
  from assms obtain err where "fst (collectResource w outputDir resource groupVersion out) = Some err"
    using dirFails_iff [of w outputDir resource groupVersion out] by auto
  then show ?thesis
    using collectResource_error by blast
qed

text \<open>
  Claim C7, as amended. When discovery succeeds, \<^verbatim>\<open>collectResources\<close> returns no error,
  and \<^verbatim>\<open>collectAllResourcesToSingleFile\<close> returns no error provided the final write of
  the output file succeeds, however many resource types failed. The counters are
  exact: the collected count is the number of attempted types whose collection
  succeeds, the error count the number of those whose collection fails, the skipped
  count the number of eligible types that the decision skips. A resource type whose
  collection fails only adds one to the error count: the run is the run on the
  resource lists without that type, with one more error, so that the types before and
  after it are processed as they are without it.
\<close>

theorem collect_survives_failures:
  assumes "ServerPreferredResources w = Inr resources"
  shows "fst (collectResources w outputDir) = None \<and>
    (WriteFile w outputFile (produced (snd (collectAllResourcesToSingleFile w outputFile))) = None \<longrightarrow>
       fst (collectAllResourcesToSingleFile w outputFile) = None) \<and>
    collectedCount (snd (collectResources w outputDir)) =
      length (filter (\<lambda>e. attempted shouldSkipResource (clusterVersionOrNil w) e \<and>
                           \<not> dirFails w outputDir e) (resourcePairs resources)) \<and>
    errorCount (snd (collectResources w outputDir)) =
      length (filter (\<lambda>e. attempted shouldSkipResource (clusterVersionOrNil w) e \<and>
                           dirFails w outputDir e) (resourcePairs resources)) \<and>
    skippedCount (snd (collectResources w outputDir)) =
      length (filter (\<lambda>e. eligible e \<and> skippedBy shouldSkipResource (clusterVersionOrNil w) e)
                (resourcePairs resources)) \<and>
    collectedCount (snd (collectAllResourcesToSingleFile w outputFile)) =
      length (filter (\<lambda>e. attempted shouldSkipResource (clusterVersionOrNil w) e \<and>
                           \<not> fetchFails w e) (resourcePairs resources)) \<and>
    errorCount (snd (collectAllResourcesToSingleFile w outputFile)) =
      length (filter (\<lambda>e. attempted shouldSkipResource (clusterVersionOrNil w) e \<and>
                           fetchFails w e) (resourcePairs resources)) \<and>
    skippedCount (snd (collectAllResourcesToSingleFile w outputFile)) =
      length (filter (\<lambda>e. eligible e \<and> skippedBy shouldSkipResource (clusterVersionOrNil w) e)
                (resourcePairs resources)) \<and>
    (resourcePairs resources = pre @ entry # post \<and> resourcePairs rest = pre @ post \<and>
     attempted shouldSkipResource (clusterVersionOrNil w) entry \<and> dirFails w outputDir entry \<longrightarrow>
       collectResources w outputDir =
         (None, (snd (collectResources (w\<lparr>ServerPreferredResources := Inr rest\<rparr>) outputDir))
                  \<lparr>errorCount :=
                     errorCount (snd (collectResources (w\<lparr>ServerPreferredResources := Inr rest\<rparr>)
                                        outputDir)) + 1\<rparr>)) \<and>
    (resourcePairs resources = pre @ entry # post \<and> resourcePairs rest = pre @ post \<and>
     attempted shouldSkipResource (clusterVersionOrNil w) entry \<and> fetchFails w entry \<longrightarrow>
       collectAllResourcesToSingleFile w outputFile =
         (fst (collectAllResourcesToSingleFile (w\<lparr>ServerPreferredResources := Inr rest\<rparr>)
                 outputFile),
          (snd (collectAllResourcesToSingleFile (w\<lparr>ServerPreferredResources := Inr rest\<rparr>)
                  outputFile))
            \<lparr>errorCount :=
               errorCount (snd (collectAllResourcesToSingleFile
                                  (w\<lparr>ServerPreferredResources := Inr rest\<rparr>) outputFile)) + 1\<rparr>))"
proof -
  let ?cv = "clusterVersionOrNil w"
  let ?w' = "w\<lparr>ServerPreferredResources := Inr rest\<rparr>"
  let ?dir = "foldl (collectStep shouldSkipResource (collectResource w outputDir) ?cv)
      (initialState [])"
  let ?file = "foldl (collectStep shouldSkipResource (collectResourceToBuffer w) ?cv)
      (initialState '''')"
  have dirRun: "collectResources w outputDir = (None, ?dir (resourcePairs resources))"
    by (simp add: collectResources_def collectResourcesWith_def assms)
  have fileRun: "collectAllResourcesToSingleFile w outputFile =
      (case WriteFile w outputFile (produced (?file (resourcePairs resources))) of
         Some err \<Rightarrow> Some (Errorf (''failed to write file '' @ outputFile) err)
       | None \<Rightarrow> None,
       ?file (resourcePairs resources))"
    by (simp add: collectAllResourcesToSingleFile_def collectAllResourcesToSingleFileWith_def
        assms Let_def split: option.splits)
  have dirRun': "collectResources ?w' outputDir = (None, ?dir (resourcePairs rest))"
    by (simp add: collectResources_def collectResourcesWith_def resources_update_version
        resources_update_dir)
  have fileRun': "collectAllResourcesToSingleFile ?w' outputFile =
      (case WriteFile w outputFile (produced (?file (resourcePairs rest))) of
         Some err \<Rightarrow> Some (Errorf (''failed to write file '' @ outputFile) err)
       | None \<Rightarrow> None,
       ?file (resourcePairs rest))"
    by (simp add: collectAllResourcesToSingleFile_def collectAllResourcesToSingleFileWith_def
        resources_update_version resources_update_fetch Let_def split: option.splits)
  have a: "fst (collectResources w outputDir) = None"
    by (simp add: dirRun)
  have b: "fst (collectAllResourcesToSingleFile w outputFile) = None"
    if "WriteFile w outputFile (produced (snd (collectAllResourcesToSingleFile w outputFile))) = None"
    using that by (simp add: fileRun)
  note dirCounts = foldl_exact [where collect = "collectResource w outputDir"
      and fails = "dirFails w outputDir" and skip = shouldSkipResource and cv = ?cv
      and st = "initialState []" and entries = "resourcePairs resources", OF dirFails_iff]
  note fileCounts = foldl_exact [where collect = "collectResourceToBuffer w"
      and fails = "fetchFails w" and skip = shouldSkipResource and cv = ?cv
      and st = "initialState ''''" and entries = "resourcePairs resources", OF fetchFails_iff]
  have c: "collectedCount (snd (collectResources w outputDir)) =
      length (filter (\<lambda>e. attempted shouldSkipResource ?cv e \<and> \<not> dirFails w outputDir e)
                (resourcePairs resources))"
    "errorCount (snd (collectResources w outputDir)) =
      length (filter (\<lambda>e. attempted shouldSkipResource ?cv e \<and> dirFails w outputDir e)
                (resourcePairs resources))"
    "skippedCount (snd (collectResources w outputDir)) =
      length (filter (\<lambda>e. eligible e \<and> skippedBy shouldSkipResource ?cv e)
                (resourcePairs resources))"
    using dirCounts by (simp_all add: dirRun initialState_def)
  have d: "collectedCount (snd (collectAllResourcesToSingleFile w outputFile)) =
      length (filter (\<lambda>e. attempted shouldSkipResource ?cv e \<and> \<not> fetchFails w e)
                (resourcePairs resources))"
    "errorCount (snd (collectAllResourcesToSingleFile w outputFile)) =
      length (filter (\<lambda>e. attempted shouldSkipResource ?cv e \<and> fetchFails w e)
                (resourcePairs resources))"
    "skippedCount (snd (collectAllResourcesToSingleFile w outputFile)) =
      length (filter (\<lambda>e. eligible e \<and> skippedBy shouldSkipResource ?cv e)
                (resourcePairs resources))"
    using fileCounts by (simp_all add: fileRun initialState_def)
  have e: "collectResources w outputDir =
      (None, (snd (collectResources ?w' outputDir))
               \<lparr>errorCount := errorCount (snd (collectResources ?w' outputDir)) + 1\<rparr>)"
    if "resourcePairs resources = pre @ entry # post" "resourcePairs rest = pre @ post"
      "attempted shouldSkipResource ?cv entry" "dirFails w outputDir entry"
  proof -
    obtain groupVersion resource where en: "entry = (groupVersion, resource)"
      by (cases entry)
    have "?dir (pre @ (groupVersion, resource) # post) =
        (?dir (pre @ post))\<lparr>errorCount := errorCount (?dir (pre @ post)) + 1\<rparr>"
      by (rule foldl_remove_failing [where collect = "collectResource w outputDir"])
         (use that en dir_failure_keeps in auto)
    then show ?thesis
      by (simp add: dirRun dirRun' that(1,2) en)
  qed
  have f: "collectAllResourcesToSingleFile w outputFile =
      (fst (collectAllResourcesToSingleFile ?w' outputFile),
       (snd (collectAllResourcesToSingleFile ?w' outputFile))
         \<lparr>errorCount := errorCount (snd (collectAllResourcesToSingleFile ?w' outputFile)) + 1\<rparr>)"
    if "resourcePairs resources = pre @ entry # post" "resourcePairs rest = pre @ post"
      "attempted shouldSkipResource ?cv entry" "fetchFails w entry"
  proof -
    obtain groupVersion resource where en: "entry = (groupVersion, resource)"
      by (cases entry)
    have "?file (pre @ (groupVersion, resource) # post) =
        (?file (pre @ post))\<lparr>errorCount := errorCount (?file (pre @ post)) + 1\<rparr>"
      by (rule foldl_remove_failing [where collect = "collectResourceToBuffer w"])
         (use that en fetch_failure_keeps in auto)
    then show ?thesis
      by (simp add: fileRun fileRun' that(1,2) en)
  qed
  show ?thesis
    using a b c d e f by blast
qed

lemma failFirst_world:
  "ServerPreferredResources sampleWorldFailFirst = Inr sampleResourcesFailFirst"
  "clusterVersionOrNil sampleWorldFailFirst = None"
  "collectResourceToBuffer sampleWorldFailFirst = collectResourceToBuffer sampleWorld"
  "collectResource sampleWorldFailFirst = collectResource sampleWorld"
  "WriteFile sampleWorldFailFirst outputFile content = None"
proof -
  show "ServerPreferredResources sampleWorldFailFirst = Inr sampleResourcesFailFirst"
    by (simp add: sampleWorldFailFirst_def)
  have "clusterVersionOrNil sampleWorld = None"
    by (simp add: clusterVersionOrNil_def sampleWorld_no_version)
  then show "clusterVersionOrNil sampleWorldFailFirst = None"
    by (simp only: sampleWorldFailFirst_def resources_update_version)
  show "collectResourceToBuffer sampleWorldFailFirst = collectResourceToBuffer sampleWorld"
    by (simp only: sampleWorldFailFirst_def resources_update_fetch)
  show "collectResource sampleWorldFailFirst = collectResource sampleWorld"
    by (simp only: sampleWorldFailFirst_def resources_update_dir)
  show "WriteFile sampleWorldFailFirst outputFile content = None"
    by (simp add: sampleWorldFailFirst_def sampleWorld_def)
qed

lemma failFirst_pairs:
  "resourcePairs sampleResourcesFailFirst =
     [] @ (''v1'', sampleEndpoints) # [(''v1'', samplePodsStatus), (''v1'', samplePods)]"
  "resourcePairs sampleResourcesRest = [] @ [(''v1'', samplePodsStatus), (''v1'', samplePods)]"
  by (simp_all add: sampleResourcesFailFirst_def sampleResourcesRest_def resourcePairs_def)

lemma failFirst_endpoints:
  "attempted shouldSkipResource (clusterVersionOrNil sampleWorldFailFirst) (''v1'', sampleEndpoints)"
  "fetchFails sampleWorldFailFirst (''v1'', sampleEndpoints)"
  "dirFails sampleWorldFailFirst ''out'' (''v1'', sampleEndpoints)"
  by (simp_all add: attempted_def sampleWorld_eligible skippedBy_def failFirst_world fetchFails_def
      dirFails_def sampleWorld_fetch sampleWorld_fetch_dir)

lemma failFirst_rest_run:
  "collectAllResourcesToSingleFile
     (sampleWorldFailFirst\<lparr>ServerPreferredResources := Inr sampleResourcesRest\<rparr>) ''out.yaml'' =
     (None, \<lparr>produced = ''--- # Resource: pods\<newline>'' @ samplePodsYaml @ ''\<newline>'',
             collectedCount = 1, errorCount = 0, skippedCount = 0\<rparr>)"
proof -
  let ?w = "sampleWorldFailFirst\<lparr>ServerPreferredResources := Inr sampleResourcesRest\<rparr>"
  have s: "\<not> skippedBy skip None entry" for skip entry
    by (simp add: skippedBy_def)
  have 1: "collectStep shouldSkipResource (collectResourceToBuffer sampleWorld) None st
      (''v1'', samplePodsStatus) = st" for st
    by (rule collectStep_ineligible [OF sampleWorld_eligible(2)])
  have 2: "collectStep shouldSkipResource (collectResourceToBuffer sampleWorld) None
      (initialState '''') (''v1'', samplePods) =
      \<lparr>produced = ''--- # Resource: pods\<newline>'' @ samplePodsYaml @ ''\<newline>'',
       collectedCount = 1, errorCount = 0, skippedCount = 0\<rparr>"
    by (subst collectStep_success [where collect = "collectResourceToBuffer sampleWorld",
          OF sampleWorld_eligible(1) s sampleWorld_fetch(1)])
       (simp add: initialState_def)
  have w: "WriteFile ?w outputFile content = None" for outputFile content
    by (simp add: failFirst_world)
  have r: "ServerPreferredResources ?w = Inr sampleResourcesRest"
    by simp
  have cv: "clusterVersionOrNil ?w = None"
    by (simp only: resources_update_version failFirst_world(2))
  have f: "collectResourceToBuffer ?w = collectResourceToBuffer sampleWorld"
    by (simp only: resources_update_fetch failFirst_world(3))
  show ?thesis
    unfolding collectAllResourcesToSingleFile_def collectAllResourcesToSingleFileWith_def Let_def
      cv r f
    by (simp only: sum.case failFirst_pairs append_Nil foldl_Cons foldl_Nil 1 2 w option.case)
qed

text \<open>
  C7 as amended on the sample cluster that advertises \<open>endpoints\<close>, whose listing
  fails, before \<open>pods\<close>: \<open>pods\<close> is still collected, and the run is the run without
  \<open>endpoints\<close> with one more error.
\<close>

theorem collect_survives_failures_witness:
  "ServerPreferredResources sampleWorldFailFirst = Inr sampleResourcesFailFirst \<and>
   resourcePairs sampleResourcesFailFirst =
     [] @ (''v1'', sampleEndpoints) # [(''v1'', samplePodsStatus), (''v1'', samplePods)] \<and>
   resourcePairs sampleResourcesRest = [] @ [(''v1'', samplePodsStatus), (''v1'', samplePods)] \<and>
   attempted shouldSkipResource (clusterVersionOrNil sampleWorldFailFirst) (''v1'', sampleEndpoints) \<and>
   fetchFails sampleWorldFailFirst (''v1'', sampleEndpoints) \<and>
   dirFails sampleWorldFailFirst ''out'' (''v1'', sampleEndpoints) \<and>
   WriteFile sampleWorldFailFirst ''out.yaml''
     (produced (snd (collectAllResourcesToSingleFile sampleWorldFailFirst ''out.yaml''))) = None \<and>
   collectAllResourcesToSingleFile
     (sampleWorldFailFirst\<lparr>ServerPreferredResources := Inr sampleResourcesRest\<rparr>) ''out.yaml'' =
     (None, \<lparr>produced = ''--- # Resource: pods\<newline>'' @ samplePodsYaml @ ''\<newline>'',
             collectedCount = 1, errorCount = 0, skippedCount = 0\<rparr>) \<and>
   collectAllResourcesToSingleFile sampleWorldFailFirst ''out.yaml'' =
     (None, \<lparr>produced = ''--- # Resource: pods\<newline>'' @ samplePodsYaml @ ''\<newline>'',
             collectedCount = 1, errorCount = 1, skippedCount = 0\<rparr>) \<and>
   fst (collectResources sampleWorldFailFirst ''out'') = None \<and>
   errorCount (snd (collectResources sampleWorldFailFirst ''out'')) =
     errorCount (snd (collectResources
       (sampleWorldFailFirst\<lparr>ServerPreferredResources := Inr sampleResourcesRest\<rparr>) ''out'')) + 1 \<and>
   collectedCount (snd (collectResources sampleWorldFailFirst ''out'')) =
     collectedCount (snd (collectResources
       (sampleWorldFailFirst\<lparr>ServerPreferredResources := Inr sampleResourcesRest\<rparr>) ''out''))"
proof -
  note t = collect_survives_failures [OF failFirst_world(1), where outputDir = "''out''"
      and outputFile = "''out.yaml''" and pre = "[]" and entry = "(''v1'', sampleEndpoints)"
      and post = "[(''v1'', samplePodsStatus), (''v1'', samplePods)]"
      and rest = sampleResourcesRest]
  have run: "collectAllResourcesToSingleFile sampleWorldFailFirst ''out.yaml'' =
     (None, \<lparr>produced = ''--- # Resource: pods\<newline>'' @ samplePodsYaml @ ''\<newline>'',
             collectedCount = 1, errorCount = 1, skippedCount = 0\<rparr>)"
    using t failFirst_pairs failFirst_endpoints by (simp add: failFirst_rest_run)
  have dir: "collectResources sampleWorldFailFirst ''out'' =
      (None, (snd (collectResources
                (sampleWorldFailFirst\<lparr>ServerPreferredResources := Inr sampleResourcesRest\<rparr>) ''out''))
         \<lparr>errorCount := errorCount (snd (collectResources
                (sampleWorldFailFirst\<lparr>ServerPreferredResources := Inr sampleResourcesRest\<rparr>) ''out'')) + 1\<rparr>)"
    using t failFirst_pairs failFirst_endpoints by blast
  have w: "WriteFile sampleWorldFailFirst ''out.yaml''
     (produced (snd (collectAllResourcesToSingleFile sampleWorldFailFirst ''out.yaml''))) = None"
    by (rule failFirst_world(5))
  show ?thesis
    using failFirst_world(1) failFirst_pairs failFirst_endpoints w failFirst_rest_run run
    by (simp add: dir)
qed

text \<open>
  Claim C7 as stated fails for \<^verbatim>\<open>collectAllResourcesToSingleFile\<close>: on the sample
  cluster with an output file that cannot be written, discovery succeeds and the
  function returns the error of \<^verbatim>\<open>os.WriteFile\<close>.
\<close>

theorem collectAllResourcesToSingleFile_write_failure:
  "ServerPreferredResources sampleWorldFullDisk = Inr sampleResources \<and>
   fst (collectAllResourcesToSingleFile sampleWorldFullDisk ''out.yaml'') =
     Some (Errorf ''failed to write file out.yaml'' (External ''no space left on device'')) \<and>
   errorCount (snd (collectAllResourcesToSingleFile sampleWorldFullDisk ''out.yaml'')) = 1"
proof -
  have r: "ServerPreferredResources sampleWorldFullDisk = Inr sampleResources"
    by (simp add: sampleWorldFullDisk_def sampleWorld_def)
  have w: "WriteFile sampleWorldFullDisk outputFile content =
      Some (External ''no space left on device'')" for outputFile content
    by (simp add: sampleWorldFullDisk_def)
  have "collectAllResourcesToSingleFile sampleWorldFullDisk ''out.yaml'' =
      (Some (Errorf ''failed to write file out.yaml'' (External ''no space left on device'')),
       \<lparr>produced = ''--- # Resource: pods\<newline>'' @ samplePodsYaml @ ''\<newline>'',
        collectedCount = 1, errorCount = 1, skippedCount = 0\<rparr>)"
    unfolding collectAllResourcesToSingleFile_def collectAllResourcesToSingleFileWith_def
      fullDisk_no_version Let_def r fullDisk_fetch
    by (simp only: sum.case sampleWorld_loop w option.case) simp
  with r show ?thesis by simp
qed

end
